theory Spec2Isabelle
  imports Main "HOL-Library.Word"
begin

unbundle bit_operations_syntax

section \<open>Values of the Python runtime\<close>

text \<open>
  A Python \<open>str\<close> is a sequence of Unicode code points and is modelled as a list of
  naturals, so that \<open>len\<close> counts code points and a decoded name outside the 8-bit range
  is still a value. \<open>asc\<close> turns an ASCII literal into such a sequence. Python
  \<open>bytes\<close> are lists of 8-bit words.
\<close>

type_synonym str = "nat list"

definition asc :: "string \<Rightarrow> str" where
  "asc s = map of_char s"

text \<open>
  The exceptions the modelled code raises. Messages are left out: no modelled code
  inspects them. A call either returns a value, raises, or does not return at all.
\<close>

datatype exc =
    FileNotFoundError | ValueError | KeyError | TypeError | AttributeError
  | StructError | UnicodeDecodeError

datatype 'a outcome = Returns 'a | Raises exc | Hangs

definition bind_outcome :: "'a outcome \<Rightarrow> ('a \<Rightarrow> 'b outcome) \<Rightarrow> 'b outcome" where
  "bind_outcome m f = (case m of Returns x \<Rightarrow> f x | Raises e \<Rightarrow> Raises e | Hangs \<Rightarrow> Hangs)"

text \<open>\<open>file_type.py\<close> and \<open>submission_type.py\<close>: the two enumerations.\<close>

datatype FileType =
    FILE_TYPE_UNKNOWN
  | FILE_TYPE_ARCHIVE_GZ | FILE_TYPE_ARCHIVE_TAR | FILE_TYPE_ARCHIVE_TGZ
  | FILE_TYPE_IMAGE_BMP | FILE_TYPE_IMAGE_GIF | FILE_TYPE_IMAGE_ICO | FILE_TYPE_IMAGE_JPG
  | FILE_TYPE_IMAGE_PNG | FILE_TYPE_IMAGE_SVG | FILE_TYPE_IMAGE_TIFF
  | FILE_TYPE_PDF
  | FILE_TYPE_POSTSCRIPT_PS | FILE_TYPE_POSTSCRIPT_EPS | FILE_TYPE_POSTSCRIPT_EPSF
  | FILE_TYPE_POSTSCRIPT_EPSI
  | FILE_TYPE_XML
  | FILE_TYPE_TEX_AUX | FILE_TYPE_TEX_BBL | FILE_TYPE_TEX_BIB | FILE_TYPE_TEX_BST
  | FILE_TYPE_TEX_CLO | FILE_TYPE_TEX_CLS | FILE_TYPE_TEX_DVI | FILE_TYPE_TEX_FIG
  | FILE_TYPE_TEX_LOG | FILE_TYPE_TEX_PSTEX | FILE_TYPE_TEX_PSTEX_T | FILE_TYPE_TEX_STY
  | FILE_TYPE_TEX_SYNCTEX | FILE_TYPE_TEX_TEX | FILE_TYPE_TEX_LATEX_209_MAIN
  | FILE_TYPE_TEX_LATEX_2E_MAIN | FILE_TYPE_TEX_TIKZ | FILE_TYPE_TEX_TOC

datatype SubmissionType =
    SUBMISSION_TYPE_UNKNOWN | SUBMISSION_TYPE_PDF | SUBMISSION_TYPE_POSTSCRIPT
  | SUBMISSION_TYPE_TEX

section \<open>Registry entries\<close>

text \<open>
  A registry entry is the dictionary built by \<open>generate_registry_entry\<close>: \<open>metadata\<close>
  (the dictionary of \<open>FileHandler.get_metadata\<close>, with \<open>submission_type_by_extension\<close>
  added for submissions), \<open>origin\<close>, and an optional \<open>diagnostics\<close> dictionary whose
  keys \<open>error_log\<close> and \<open>key_conflicts\<close> may each be absent. The enumeration values
  stand for their \<open>.value\<close> strings, which are pairwise different. Equality of entries
  is Python's structural equality of dictionaries.
\<close>

record metadata =
  filename :: str
  size_bytes :: int
  hash :: "(str \<times> str) list"
  timestamp_iso :: str
  file_type :: FileType
  submission_type_by_extension :: "SubmissionType option"

datatype origin =
    Bulk_origin (origin_uri: str)
  | Submission_origin (origin_url: str) (origin_bulk_archive_key: str)

datatype entry =
    Entry (entry_metadata: metadata) (entry_origin: origin) (entry_diagnostics: "diagnostics option")
and diagnostics =
    Diagnostics (error_log: "str list option") (key_conflicts: "entry list option")

text \<open>
  The registry is a Python dictionary: keys are unique and keep their insertion order.
  It is modelled as the list of its items in that order.
\<close>

type_synonym registry = "(str \<times> entry) list"

section \<open>The environment\<close>

text \<open>
  \<open>datetime\<close> values are naive or timezone-aware instants; comparing a naive with an
  aware one raises \<open>TypeError\<close>.
\<close>

datatype datetime = Naive int | Aware int

text \<open>
  A format handler as \<open>FileHandler\<close> uses it: the keys of its extension map, and its
  two classification methods. The three handlers whose modules are not among the sources
  are given by the world; their classification by format either returns or raises.
\<close>

record handler =
  extension_map_keys :: "str list"
  type_from_extension :: "str \<Rightarrow> FileType list"
  type_from_format :: "str \<Rightarrow> FileType outcome"

record external_handler =
  ext_extension_map_keys :: "str list"
  ext_type_from_extension :: "str \<Rightarrow> FileType list"
  ext_type_from_format :: "str \<Rightarrow> exc + FileType"

datatype HashType = HASH_TYPE_MD5 | HASH_TYPE_SHA256

text \<open>
  Everything the modelled code asks of its surroundings is a field of the \<open>world\<close>:
  the modules \<open>file_system.py\<close> and \<open>hash_service.py\<close> and the handlers
  \<open>pdf_handler.py\<close>, \<open>postscript_handler.py\<close> and \<open>xml_handler.py\<close> (used by the
  sources but not among them), the standard library's view of the files (\<open>open\<close>,
  \<open>tarfile\<close>, \<open>gzip\<close>, \<open>json\<close>, \<open>PIL\<close>, \<open>os.getcwd\<close>,
  \<open>datetime.fromisoformat\<close>), and the Unicode character database consulted for code
  points outside ASCII. A world is one snapshot: two calls made in the same world see the
  same files. Failures of the platform itself (a read error on an existing file) are not
  part of a world, nor is an exception of the gzip reader other than \<open>BadGzipFile\<close>.

  \<^item> \<open>gzip_read_ok p\<close>: \<open>gzip.open(p).read(1)\<close> does not raise \<open>BadGzipFile\<close>;
  \<^item> \<open>tarfile_members p\<close>: the members of \<open>tarfile.open(p)\<close>, each with its name and
    whether it is a regular file;
  \<^item> \<open>pil_image_format p\<close>: \<open>None\<close> when \<open>Image.open\<close> raises \<open>IOError\<close>, otherwise
    the format string (empty when PIL reports none);
  \<^item> \<open>fromisoformat s\<close>: \<open>None\<close> when the string is rejected with \<open>ValueError\<close>;
  \<^item> \<open>json_load p\<close>: what \<open>json.load\<close> makes of the file;
  \<^item> \<open>uc_decimal c\<close>: the value of a non-ASCII decimal digit, \<open>uc_alnum c\<close>: whether
    a non-ASCII code point is alphanumeric, \<open>uc_lower s\<close>: \<open>s.lower()\<close> for a string
    with a non-ASCII code point.
\<close>

record world =
  is_file :: "str \<Rightarrow> bool"
  is_directory :: "str \<Rightarrow> bool"
  get_file_size :: "str \<Rightarrow> int"
  get_file_timestamp :: "str \<Rightarrow> str"
  is_utf8_encoded :: "str \<Rightarrow> bool"
  calculate_file_hash :: "str \<Rightarrow> HashType \<Rightarrow> str"
  pdf_handler :: external_handler
  postscript_handler :: external_handler
  xml_handler :: external_handler
  read_bytes :: "str \<Rightarrow> 8 word list"
  read_text :: "str \<Rightarrow> str"
  tarfile_is_tarfile :: "str \<Rightarrow> bool"
  gzip_read_ok :: "str \<Rightarrow> bool"
  tarfile_members :: "str \<Rightarrow> (str \<times> bool) list"
  pil_image_format :: "str \<Rightarrow> str option"
  getcwd :: str
  fromisoformat :: "str \<Rightarrow> datetime option"
  json_load :: "str \<Rightarrow> registry outcome"
  uc_alnum :: "nat \<Rightarrow> bool"
  uc_decimal :: "nat \<Rightarrow> nat option"
  uc_lower :: "str \<Rightarrow> str"

section \<open>\<open>services/time_service.py\<close>\<close>

definition datetime_gt :: "datetime \<Rightarrow> datetime \<Rightarrow> bool outcome" where
  "datetime_gt d1 d2 =
     (case (d1, d2) of
        (Naive a, Naive b) \<Rightarrow> Returns (a > b)
      | (Aware a, Aware b) \<Rightarrow> Returns (a > b)
      | _ \<Rightarrow> Raises TypeError)"

definition is_iso_timestamp_newer :: "world \<Rightarrow> str \<Rightarrow> str \<Rightarrow> bool outcome" where
  "is_iso_timestamp_newer w iso_timestamp1 iso_timestamp2 =
     (case fromisoformat w iso_timestamp1 of
        None \<Rightarrow> Raises ValueError
      | Some dt1 \<Rightarrow>
          (case fromisoformat w iso_timestamp2 of
             None \<Rightarrow> Raises ValueError
           | Some dt2 \<Rightarrow> datetime_gt dt1 dt2))"

section \<open>\<open>arxiv/manifest.py\<close>\<close>

text \<open>
  The manifest dictionary has a \<open>metadata\<close> part, empty until an index has been
  imported and then holding \<open>manifest_timestamp_iso\<close>, and the \<open>contents\<close>
  dictionary from base filename to the record of \<open>_process_file_entry\<close>.
\<close>

record manifest_entry =
  me_filename :: str
  me_size_bytes :: int
  me_timestamp_iso :: str
  me_year :: int
  me_month :: int
  me_sequence_number :: int
  me_n_submissions :: int
  me_hash_MD5 :: str
  me_hash_MD5_contents :: str

record manifest =
  manifest_timestamp_iso :: "str option"
  contents :: "(str \<times> manifest_entry) list"

definition list_keys :: "manifest \<Rightarrow> str set" where
  "list_keys m = set (map fst (contents m))"

definition is_newer_than :: "world \<Rightarrow> manifest \<Rightarrow> manifest \<Rightarrow> bool outcome" where
  "is_newer_than w self other_manifest =
     (case manifest_timestamp_iso self of
        None \<Rightarrow> Raises KeyError
      | Some iso_timestamp1 \<Rightarrow>
     (case manifest_timestamp_iso other_manifest of
        None \<Rightarrow> Raises KeyError
      | Some iso_timestamp2 \<Rightarrow>
     (let current_keys = list_keys self;
          other_keys = list_keys other_manifest;
          common_keys = current_keys \<inter> other_keys;
          files_in_current_but_not_in_other = current_keys - common_keys;
          files_in_other_but_not_in_current = other_keys - common_keys
      in
        if iso_timestamp1 = iso_timestamp2 then
          (if files_in_current_but_not_in_other \<noteq> {} \<or> files_in_other_but_not_in_current \<noteq> {}
           then Raises ValueError
           else Returns False)
        else
          (case is_iso_timestamp_newer w iso_timestamp1 iso_timestamp2 of
             Raises e \<Rightarrow> Raises e
           | Hangs \<Rightarrow> Hangs
           | Returns is_timestamp_newer \<Rightarrow>
               if is_timestamp_newer then
                 (if files_in_current_but_not_in_other = {} then Raises ValueError
                  else if files_in_other_but_not_in_current \<noteq> {} then Raises ValueError
                  else Returns is_timestamp_newer)
               else
                 (if files_in_other_but_not_in_current = {} then Raises ValueError
                  else if files_in_current_but_not_in_other \<noteq> {} then Raises ValueError
                  else Returns is_timestamp_newer)))))"

definition find_new_entries :: "world \<Rightarrow> manifest \<Rightarrow> manifest \<Rightarrow> str set outcome" where
  "find_new_entries w self reference_manifest =
     (case is_newer_than w self reference_manifest of
        Raises e \<Rightarrow> Raises e
      | Hangs \<Rightarrow> Hangs
      | Returns newer \<Rightarrow>
          if \<not> newer then Raises ValueError
          else Returns (list_keys self - list_keys reference_manifest))"

section \<open>\<open>services/registry.py\<close>\<close>

text \<open>
  The methods change \<open>self._registry\<close> in place, and an exception leaves whatever was
  changed before it. So every method returns its outcome together with the registry after
  the call.
\<close>

definition clear :: "registry \<Rightarrow> registry" where
  "clear reg = []"

definition is_key_present :: "registry \<Rightarrow> str \<Rightarrow> bool" where
  "is_key_present reg hash_key = (hash_key \<in> set (map fst reg))"

definition get_entry :: "registry \<Rightarrow> str \<Rightarrow> entry outcome" where
  "get_entry reg hash_key =
     (case map_of reg hash_key of None \<Rightarrow> Raises KeyError | Some e \<Rightarrow> Returns e)"

text \<open>Assignment \<open>d[k] = v\<close>: a present key keeps its place, a new key goes last.\<close>

fun dict_set :: "('k \<times> 'v) list \<Rightarrow> 'k \<Rightarrow> 'v \<Rightarrow> ('k \<times> 'v) list" where
  "dict_set [] k v = [(k, v)]"
| "dict_set ((k', v') # d) k v = (if k' = k then (k, v) # d else (k', v') # dict_set d k v)"

definition add_entry :: "registry \<Rightarrow> str \<Rightarrow> entry \<Rightarrow> unit outcome \<times> registry" where
  "add_entry reg hash_key e =
     (if hash_key \<in> set (map fst reg) then (Raises KeyError, reg)
      else (Returns (), dict_set reg hash_key e))"

definition update_entry :: "registry \<Rightarrow> str \<Rightarrow> entry \<Rightarrow> unit outcome \<times> registry" where
  "update_entry reg hash_key e =
     (if hash_key \<notin> set (map fst reg) then (Raises KeyError, reg)
      else (Returns (), dict_set reg hash_key e))"

definition delete_entry :: "registry \<Rightarrow> str \<Rightarrow> unit outcome \<times> registry" where
  "delete_entry reg hash_key =
     (if hash_key \<notin> set (map fst reg) then (Raises KeyError, reg)
      else (Returns (), filter (\<lambda>kv. fst kv \<noteq> hash_key) reg))"

definition load :: "world \<Rightarrow> registry \<Rightarrow> str \<Rightarrow> unit outcome \<times> registry" where
  "load w reg file_path =
     (let reg1 = clear reg in
        if \<not> is_file w file_path then (Raises FileNotFoundError, reg1)
        else
          (case json_load w file_path of
             Returns loaded \<Rightarrow> (Returns (), loaded)
           | Raises e \<Rightarrow> (Raises e, reg1)
           | Hangs \<Rightarrow> (Hangs, reg1)))"

section \<open>Strings and paths of the standard library\<close>

text \<open>\<open>s.split(sep)\<close> for a one-character separator, \<open>sep.join(parts)\<close> and
  \<open>s.startswith(p)\<close>.\<close>

fun split_on :: "nat \<Rightarrow> str \<Rightarrow> str list" where
  "split_on sep [] = [[]]"
| "split_on sep (c # cs) =
     (if c = sep then [] # split_on sep cs
      else (case split_on sep cs of h # t \<Rightarrow> (c # h) # t | [] \<Rightarrow> [[c]]))"

fun join_with :: "str \<Rightarrow> str list \<Rightarrow> str" where
  "join_with sep [] = []"
| "join_with sep [x] = x"
| "join_with sep (x # y # ys) = x @ sep @ join_with sep (y # ys)"

definition startswith :: "str \<Rightarrow> str \<Rightarrow> bool" where
  "startswith s p = (take (length p) s = p)"

text \<open>
  \<open>s.lower()\<close>: on ASCII strings the letters \<open>A\<close> to \<open>Z\<close> move to \<open>a\<close> to \<open>z\<close>; a
  string with a code point outside ASCII is lowered by the Unicode database.
\<close>

definition ascii_lower :: "nat \<Rightarrow> nat" where
  "ascii_lower c = (if 65 \<le> c \<and> c \<le> 90 then c + 32 else c)"

definition py_lower :: "world \<Rightarrow> str \<Rightarrow> str" where
  "py_lower w s = (if \<forall>c \<in> set s. c < 128 then map ascii_lower s else uc_lower w s)"

text \<open>
  The regular-expression classes \<open>\d\<close> and \<open>\w\<close> on \<open>str\<close> patterns, and the value
  \<open>int\<close> gives a decimal digit.
\<close>

definition decimal_value :: "world \<Rightarrow> nat \<Rightarrow> nat option" where
  "decimal_value w c =
     (if c < 128 then (if 48 \<le> c \<and> c \<le> 57 then Some (c - 48) else None) else uc_decimal w c)"

definition is_decimal :: "world \<Rightarrow> nat \<Rightarrow> bool" where
  "is_decimal w c = (decimal_value w c \<noteq> None)"

definition is_word_char :: "world \<Rightarrow> nat \<Rightarrow> bool" where
  "is_word_char w c =
     (if c < 128
      then (48 \<le> c \<and> c \<le> 57) \<or> (65 \<le> c \<and> c \<le> 90) \<or> (97 \<le> c \<and> c \<le> 122) \<or> c = 95
      else uc_alnum w c)"

text \<open>
  A pattern that ends in \<open>$\<close> matches up to the end of the string or up to a newline
  that ends the string. \<open>matched_to_dollar\<close> gives the part of the subject that the
  pattern in front of \<open>$\<close> has matched, for a pattern that matches no newline.
\<close>

definition matched_to_dollar :: "(str \<Rightarrow> bool) \<Rightarrow> str \<Rightarrow> str option" where
  "matched_to_dollar body s =
     (if body s then Some s
      else if s \<noteq> [] \<and> last s = 10 \<and> body (butlast s) then Some (butlast s)
      else None)"

definition match_to_dollar :: "(str \<Rightarrow> bool) \<Rightarrow> str \<Rightarrow> bool" where
  "match_to_dollar body s = (matched_to_dollar body s \<noteq> None)"

text \<open>
  \<open>int(s)\<close> and \<open>s.isdigit()\<close> for a string of decimal digits (the only strings the
  modelled code passes are those a \<open>\d\<close> group has matched).
\<close>

definition py_int :: "world \<Rightarrow> str \<Rightarrow> nat" where
  "py_int w s = foldl (\<lambda>a c. 10 * a + (case decimal_value w c of Some d \<Rightarrow> d | None \<Rightarrow> 0)) 0 s"

definition py_isdigit :: "world \<Rightarrow> str \<Rightarrow> bool" where
  "py_isdigit w s = (s \<noteq> [] \<and> (\<forall>c \<in> set s. is_decimal w c))"

text \<open>\<open>needle in haystack\<close> for strings, and \<open>d[k]\<close> for a dictionary.\<close>

definition contains :: "str \<Rightarrow> str \<Rightarrow> bool" where
  "contains haystack needle =
     (\<exists>i \<in> set [0 ..< Suc (length haystack - length needle)].
        take (length needle) (drop i haystack) = needle)"

definition dict_get :: "('k \<times> 'v) list \<Rightarrow> 'k \<Rightarrow> 'v outcome" where
  "dict_get d k = (case map_of d k of None \<Rightarrow> Raises KeyError | Some v \<Rightarrow> Returns v)"

definition of_result :: "exc + 'a \<Rightarrow> 'a outcome" where
  "of_result r = (case r of Inl e \<Rightarrow> Raises e | Inr x \<Rightarrow> Returns x)"

text \<open>\<open>posixpath\<close>: \<open>basename\<close>, \<open>splitext\<close>, \<open>join\<close>, \<open>isabs\<close>, \<open>normpath\<close>,
  \<open>abspath\<close> and \<open>commonpath\<close>.\<close>

definition basename :: "str \<Rightarrow> str" where
  "basename p = rev (takeWhile (\<lambda>c. c \<noteq> 47) (rev p))"

text \<open>
  \<open>splitext\<close> splits at the last dot of the last path component, unless only dots
  precede it there.
\<close>

definition splitext :: "str \<Rightarrow> str \<times> str" where
  "splitext p =
     (let base = basename p;
          ext_length = length (takeWhile (\<lambda>c. c \<noteq> 46) (rev base)) + 1
      in
        if 46 \<in> set base \<and> (\<exists>c \<in> set (take (length base - ext_length) base). c \<noteq> 46)
        then (take (length p - ext_length) p, drop (length p - ext_length) p)
        else (p, []))"

definition path_join :: "str \<Rightarrow> str \<Rightarrow> str" where
  "path_join a b =
     (if startswith b [47] then b
      else if a = [] \<or> last a = 47 then a @ b
      else a @ [47] @ b)"

definition isabs :: "str \<Rightarrow> bool" where
  "isabs p = startswith p [47]"

definition normpath_step :: "nat \<Rightarrow> str list \<Rightarrow> str \<Rightarrow> str list" where
  "normpath_step initial_slashes new_comps part =
     (if part = [] \<or> part = asc ''.'' then new_comps
      else if part \<noteq> asc ''..'' \<or> (initial_slashes = 0 \<and> new_comps = [])
              \<or> (new_comps \<noteq> [] \<and> last new_comps = asc ''..'')
           then new_comps @ [part]
      else if new_comps \<noteq> [] then butlast new_comps
      else new_comps)"

definition normpath :: "str \<Rightarrow> str" where
  "normpath path =
     (if path = [] then asc ''.''
      else
        (let initial_slashes =
               (if startswith path [47]
                then (if startswith path [47, 47] \<and> \<not> startswith path [47, 47, 47] then 2 else 1)
                else 0);
             comps = foldl (normpath_step initial_slashes) [] (split_on 47 path);
             joined = replicate initial_slashes 47 @ join_with [47] comps
         in if joined = [] then asc ''.'' else joined))"

definition abspath :: "world \<Rightarrow> str \<Rightarrow> str" where
  "abspath w path = normpath (if isabs path then path else path_join (getcwd w) path)"

fun common_prefix :: "'a list \<Rightarrow> 'a list \<Rightarrow> 'a list" where
  "common_prefix (x # xs) (y # ys) = (if x = y then x # common_prefix xs ys else [])"
| "common_prefix xs ys = []"

text \<open>
  \<open>commonpath\<close> raises \<open>ValueError\<close> on an empty sequence and on a mix of absolute and
  relative paths. It takes the common prefix of the least and the greatest component
  list, which is the common prefix of all of them.
\<close>

definition commonpath :: "str list \<Rightarrow> str outcome" where
  "commonpath paths =
     (if paths = [] then Raises ValueError
      else if \<exists>p \<in> set paths. isabs p \<noteq> isabs (hd paths) then Raises ValueError
      else
        (let split_paths =
               map (\<lambda>p. filter (\<lambda>c. c \<noteq> [] \<and> c \<noteq> asc ''.'') (split_on 47 p)) paths;
             common = foldr common_prefix (tl split_paths) (hd split_paths)
         in Returns ((if isabs (hd paths) then [47] else []) @ join_with [47] common)))"

text \<open>
  \<open>bytes.decode()\<close>: strict UTF-8. \<open>None\<close> stands for \<open>UnicodeDecodeError\<close>
  (a stray or missing continuation byte, an overlong form, a surrogate, a value above
  \<open>U+10FFFF\<close>).
\<close>

definition is_continuation :: "nat \<Rightarrow> bool" where
  "is_continuation c = (128 \<le> c \<and> c < 192)"

fun utf8_decode :: "nat list \<Rightarrow> str option" where
  "utf8_decode [] = Some []"
| "utf8_decode (b # bs) =
     (if b < 128 then map_option ((#) b) (utf8_decode bs)
      else if 194 \<le> b \<and> b \<le> 223 then
        (case bs of
           c1 # bs' \<Rightarrow>
             if is_continuation c1
             then map_option ((#) ((b - 192) * 64 + (c1 - 128))) (utf8_decode bs')
             else None
         | _ \<Rightarrow> None)
      else if 224 \<le> b \<and> b \<le> 239 then
        (case bs of
           c1 # c2 # bs' \<Rightarrow>
             if (if b = 224 then 160 else 128) \<le> c1 \<and> c1 \<le> (if b = 237 then 159 else 191)
                \<and> is_continuation c2
             then map_option ((#) ((b - 224) * 4096 + (c1 - 128) * 64 + (c2 - 128)))
                    (utf8_decode bs')
             else None
         | _ \<Rightarrow> None)
      else if 240 \<le> b \<and> b \<le> 244 then
        (case bs of
           c1 # c2 # c3 # bs' \<Rightarrow>
             if (if b = 240 then 144 else 128) \<le> c1 \<and> c1 \<le> (if b = 244 then 143 else 191)
                \<and> is_continuation c2 \<and> is_continuation c3
             then map_option
                    ((#) ((b - 240) * 262144 + (c1 - 128) * 4096 + (c2 - 128) * 64 + (c3 - 128)))
                    (utf8_decode bs')
             else None
         | _ \<Rightarrow> None)
      else None)"

definition decode :: "8 word list \<Rightarrow> str outcome" where
  "decode bs =
     (case utf8_decode (map unat bs) of None \<Rightarrow> Raises UnicodeDecodeError | Some s \<Rightarrow> Returns s)"

text \<open>A list comprehension over calls that may raise: the first failure ends it.\<close>

fun outcome_list :: "'a outcome list \<Rightarrow> 'a list outcome" where
  "outcome_list [] = Returns []"
| "outcome_list (m # ms) =
     bind_outcome m (\<lambda>x. bind_outcome (outcome_list ms) (\<lambda>xs. Returns (x # xs)))"

section \<open>\<open>file/file_name.py\<close>\<close>

definition MAX_FILENAME_LENGTH :: nat where
  "MAX_FILENAME_LENGTH = 250"

definition get_file_extension :: "str \<Rightarrow> str" where
  "get_file_extension file_path = snd (splitext file_path)"

definition get_file_basename :: "str \<Rightarrow> str" where
  "get_file_basename file_path = basename file_path"

text \<open>The pattern \<open>^[\w\-.+=]+$\<close>.\<close>

definition allowed_pattern :: "world \<Rightarrow> str \<Rightarrow> bool" where
  "allowed_pattern w =
     match_to_dollar
       (\<lambda>s. s \<noteq> [] \<and> (\<forall>c \<in> set s. is_word_char w c \<or> c = 45 \<or> c = 46 \<or> c = 43 \<or> c = 61))"

definition is_path_characters_allowed :: "world \<Rightarrow> str \<Rightarrow> bool" where
  "is_path_characters_allowed w file_path =
     (\<forall>component \<in> set (split_on 47 file_path).
        allowed_pattern w component
        \<and> component \<notin> {[], asc ''.'', asc ''..''})"

definition is_path_within_directory :: "world \<Rightarrow> str \<Rightarrow> str \<Rightarrow> bool outcome" where
  "is_path_within_directory w base_directory target_path =
     (let abs_base_directory = abspath w (normpath base_directory);
          abs_target_path = abspath w (normpath target_path)
      in bind_outcome (commonpath [abs_base_directory]) (\<lambda>c1.
         bind_outcome (commonpath [abs_base_directory, abs_target_path]) (\<lambda>c2.
         Returns (c1 = c2))))"

definition is_filename_allowed :: "world \<Rightarrow> str \<Rightarrow> bool outcome" where
  "is_filename_allowed w file_path =
     (let temp_path = path_join (asc ''temp'') file_path in
      bind_outcome (is_path_within_directory w (asc ''temp'') temp_path)
        (\<lambda>is_within_temp_directory.
           let has_valid_characters = is_path_characters_allowed w file_path;
               n = length file_path;
               is_length_valid = (0 < n \<and> n < MAX_FILENAME_LENGTH)
           in Returns (is_within_temp_directory \<and> has_valid_characters \<and> is_length_valid)))"

definition is_filename_list_unique :: "world \<Rightarrow> str list \<Rightarrow> bool \<Rightarrow> bool \<Rightarrow> bool" where
  "is_filename_list_unique w filename_list is_case_insensitive is_filename_only =
     (let processed_filenames =
            map (\<lambda>f. if is_filename_only then get_file_basename f else f) filename_list;
          processed_filenames =
            (if is_case_insensitive then map (py_lower w) processed_filenames
             else processed_filenames)
      in card (set processed_filenames) = length processed_filenames)"

section \<open>\<open>file/handler/archive_handler.py\<close>\<close>

definition archive_file_extension_map :: "(str \<times> FileType list) list" where
  "archive_file_extension_map =
     [(asc ''.gz'', [FILE_TYPE_ARCHIVE_GZ, FILE_TYPE_ARCHIVE_TGZ]),
      (asc ''.tar'', [FILE_TYPE_ARCHIVE_TAR]),
      (asc ''.tgz'', [FILE_TYPE_ARCHIVE_TGZ])]"

definition archive_get_file_type_from_extension :: "world \<Rightarrow> str \<Rightarrow> FileType list" where
  "archive_get_file_type_from_extension w file_extension =
     (case map_of archive_file_extension_map (py_lower w file_extension) of
        None \<Rightarrow> [FILE_TYPE_UNKNOWN] | Some types \<Rightarrow> types)"

definition is_tar_or_tgz_format :: "world \<Rightarrow> str \<Rightarrow> bool" where
  "is_tar_or_tgz_format w file_path = tarfile_is_tarfile w file_path"

definition is_gzip_or_tgz_format :: "world \<Rightarrow> str \<Rightarrow> bool" where
  "is_gzip_or_tgz_format w file_path = gzip_read_ok w file_path"

definition is_tar_format :: "world \<Rightarrow> str \<Rightarrow> bool outcome" where
  "is_tar_format w file_path =
     (if \<not> is_file w file_path then Raises FileNotFoundError
      else Returns (is_tar_or_tgz_format w file_path \<and> \<not> is_gzip_or_tgz_format w file_path))"

definition is_gzip_format :: "world \<Rightarrow> str \<Rightarrow> bool outcome" where
  "is_gzip_format w file_path =
     (if \<not> is_file w file_path then Raises FileNotFoundError
      else Returns (is_gzip_or_tgz_format w file_path \<and> \<not> is_tar_or_tgz_format w file_path))"

definition is_tgz_format :: "world \<Rightarrow> str \<Rightarrow> bool outcome" where
  "is_tgz_format w file_path =
     (if \<not> is_file w file_path then Raises FileNotFoundError
      else Returns (is_gzip_or_tgz_format w file_path \<and> is_tar_or_tgz_format w file_path))"

definition archive_get_file_type_from_format :: "world \<Rightarrow> str \<Rightarrow> FileType outcome" where
  "archive_get_file_type_from_format w file_path =
     bind_outcome (is_tar_format w file_path) (\<lambda>is_tar.
       if is_tar then Returns FILE_TYPE_ARCHIVE_TAR
       else bind_outcome (is_tgz_format w file_path) (\<lambda>is_tgz.
         if is_tgz then Returns FILE_TYPE_ARCHIVE_TGZ
         else bind_outcome (is_gzip_format w file_path) (\<lambda>is_gzip.
           if is_gzip then Returns FILE_TYPE_ARCHIVE_GZ
           else Returns FILE_TYPE_UNKNOWN)))"

definition is_archive_format :: "world \<Rightarrow> str \<Rightarrow> bool outcome" where
  "is_archive_format w file_path =
     (if \<not> is_file w file_path then Raises FileNotFoundError
      else bind_outcome (is_tar_format w file_path) (\<lambda>is_tar.
           bind_outcome (is_tgz_format w file_path) (\<lambda>is_tgz.
           bind_outcome (is_gzip_format w file_path) (\<lambda>is_gzip.
           Returns (is_tar \<or> is_gzip \<or> is_tgz)))))"

definition list_tar_or_tgz_contents :: "world \<Rightarrow> str \<Rightarrow> str list" where
  "list_tar_or_tgz_contents w file_path = map fst (filter snd (tarfile_members w file_path))"

definition list_tar_contents :: "world \<Rightarrow> str \<Rightarrow> str list outcome" where
  "list_tar_contents w file_path =
     (if \<not> is_file w file_path then Raises FileNotFoundError
      else bind_outcome (is_tar_format w file_path) (\<lambda>is_file_tar_format.
        if \<not> is_file_tar_format then Raises TypeError
        else Returns (list_tar_or_tgz_contents w file_path)))"

definition list_tgz_contents :: "world \<Rightarrow> str \<Rightarrow> str list outcome" where
  "list_tgz_contents w file_path =
     (if \<not> is_file w file_path then Raises FileNotFoundError
      else bind_outcome (is_tgz_format w file_path) (\<lambda>is_file_tgz_format.
        if \<not> is_file_tgz_format then Raises TypeError
        else Returns (list_tar_or_tgz_contents w file_path)))"

text \<open>
  The name loop \<open>b''.join(iter(lambda: file_handle.read(1), b'\0'))\<close> reads one byte at
  a time until it reads a NUL byte. At the end of the file \<open>read(1)\<close> gives the empty
  bytes, which is not the sentinel, so the loop goes on reading: it never ends. The
  first argument is what is left to read, the second the bytes joined so far; the result
  is the name and what is left after the NUL byte.
\<close>

partial_function (option) read_until_nul ::
  "8 word list \<Rightarrow> 8 word list \<Rightarrow> (8 word list \<times> 8 word list) option" where
  "read_until_nul file_handle name =
     (case file_handle of
        [] \<Rightarrow> read_until_nul [] name
      | b # rest \<Rightarrow> if b = 0 then Some (name, rest) else read_until_nul rest (name @ [b]))"

declare read_until_nul.simps [code]

text \<open>
  \<open>struct.unpack\<close> raises \<open>struct.error\<close> unless it is given exactly the bytes its
  format asks for, ten for the header and two for the length of the extra field;
  \<open>read(n)\<close> gives fewer than \<open>n\<close> bytes at the end of the file.
\<close>

definition list_gzip_contents :: "world \<Rightarrow> str \<Rightarrow> str list outcome" where
  "list_gzip_contents w file_path =
     (if \<not> is_file w file_path then Raises FileNotFoundError
      else bind_outcome (is_gzip_format w file_path) (\<lambda>is_file_gzip_format.
        if \<not> is_file_gzip_format then Raises TypeError
        else
          (let file_handle = read_bytes w file_path;
               header = take 10 file_handle;
               file_handle = drop 10 file_handle
           in
             if length header \<noteq> 10 then Raises StructError
             else
               (let id1 = header ! 0; id2 = header ! 1; compression = header ! 2;
                    flags = header ! 3;
                    is_valid_compression_format = (id1 = 0x1F \<and> id2 = 0x8B \<and> compression = 0x08)
                in
                  if is_valid_compression_format then
                    (let is_extra_field_present = (flags AND push_bit 2 1 \<noteq> 0) in
                     bind_outcome
                       (if is_extra_field_present then
                          (let length_field = take 2 file_handle;
                               file_handle = drop 2 file_handle
                           in
                             if length length_field \<noteq> 2 then Raises StructError
                             else Returns
                               (drop (unat (length_field ! 0) + 256 * unat (length_field ! 1))
                                  file_handle))
                        else Returns file_handle)
                       (\<lambda>file_handle.
                          let is_filename_field_present = (flags AND push_bit 3 1 \<noteq> 0) in
                            if is_filename_field_present then
                              (case read_until_nul file_handle [] of
                                 None \<Rightarrow> Hangs
                               | Some (name, file_handle) \<Rightarrow>
                                   bind_outcome (decode name) (\<lambda>name. Returns [name]))
                            else Returns []))
                  else Returns []))))"

definition list_contents :: "world \<Rightarrow> str \<Rightarrow> str list outcome" where
  "list_contents w file_path =
     bind_outcome (is_archive_format w file_path) (\<lambda>is_archive_file.
       if \<not> is_archive_file then Raises TypeError
       else bind_outcome (is_gzip_format w file_path) (\<lambda>is_gzip.
         if is_gzip then list_gzip_contents w file_path
         else bind_outcome (is_tar_format w file_path) (\<lambda>is_tar.
           if is_tar then list_tar_contents w file_path
           else bind_outcome (is_tgz_format w file_path) (\<lambda>is_tgz.
             if is_tgz then list_tgz_contents w file_path
             else Raises TypeError))))"

definition check_extract_possible :: "world \<Rightarrow> str \<Rightarrow> str \<Rightarrow> str list outcome" where
  "check_extract_possible w source_file_path destination_directory =
     (let error_log = [];
          is_file_found = is_file w source_file_path;
          error_log = (if \<not> is_file_found then error_log @ [asc ''file not found'']
                       else error_log);
          is_directory_found = is_directory w destination_directory;
          error_log = (if \<not> is_directory_found
                       then error_log @ [asc ''destination directory not found'']
                       else error_log)
      in
        if is_file_found \<and> is_directory_found then
          bind_outcome (list_contents w source_file_path) (\<lambda>file_contents.
            let is_unique_names = is_filename_list_unique w file_contents True False;
                error_log =
                  (if \<not> is_unique_names
                   then error_log @
                     [asc ''archive contents filename is not unique on case-insensitive file systems'']
                   else error_log)
            in
              bind_outcome (outcome_list (map (is_filename_allowed w) file_contents))
                (\<lambda>allowed.
                   let is_valid_filenames = list_all (\<lambda>b. b) allowed;
                       error_log =
                         (if \<not> is_valid_filenames
                          then error_log @ [asc ''archive contents filenames are forbidden'']
                          else error_log)
                   in
                     if is_unique_names \<and> is_valid_filenames then
                       Returns
                         (if \<exists>contents_filename \<in> set file_contents.
                               is_file w (path_join destination_directory contents_filename)
                          then error_log @ [asc ''destination file already exists'']
                          else error_log)
                     else Returns error_log))
        else Returns error_log)"

definition is_extract_possible :: "world \<Rightarrow> str \<Rightarrow> str \<Rightarrow> bool outcome" where
  "is_extract_possible w source_file_path destination_directory =
     bind_outcome (check_extract_possible w source_file_path destination_directory)
       (\<lambda>error_log. Returns (length error_log = 0))"

section \<open>\<open>file/handler/image_handler.py\<close> and \<open>file/handler/tex_handler.py\<close>\<close>

definition image_file_extension_map :: "(str \<times> FileType list) list" where
  "image_file_extension_map =
     [(asc ''.bmp'', [FILE_TYPE_IMAGE_BMP]),
      (asc ''.gif'', [FILE_TYPE_IMAGE_GIF]),
      (asc ''.ico'', [FILE_TYPE_IMAGE_ICO]),
      (asc ''.jpeg'', [FILE_TYPE_IMAGE_JPG]),
      (asc ''.jpg'', [FILE_TYPE_IMAGE_JPG]),
      (asc ''.png'', [FILE_TYPE_IMAGE_PNG]),
      (asc ''.tif'', [FILE_TYPE_IMAGE_TIFF]),
      (asc ''.tiff'', [FILE_TYPE_IMAGE_TIFF])]"

definition pil_to_type_map :: "(str \<times> FileType) list" where
  "pil_to_type_map =
     [(asc ''BMP'', FILE_TYPE_IMAGE_BMP),
      (asc ''GIF'', FILE_TYPE_IMAGE_GIF),
      (asc ''ICO'', FILE_TYPE_IMAGE_ICO),
      (asc ''PNG'', FILE_TYPE_IMAGE_PNG),
      (asc ''JPEG'', FILE_TYPE_IMAGE_JPG),
      (asc ''TIFF'', FILE_TYPE_IMAGE_TIFF)]"

definition image_get_file_type_from_extension :: "world \<Rightarrow> str \<Rightarrow> FileType list" where
  "image_get_file_type_from_extension w file_extension =
     (case map_of image_file_extension_map (py_lower w file_extension) of
        None \<Rightarrow> [FILE_TYPE_UNKNOWN] | Some types \<Rightarrow> types)"

definition image_get_file_type_from_format :: "world \<Rightarrow> str \<Rightarrow> FileType outcome" where
  "image_get_file_type_from_format w file_path =
     (if \<not> is_file w file_path then Raises FileNotFoundError
      else
        (case pil_image_format w file_path of
           None \<Rightarrow> Returns FILE_TYPE_UNKNOWN
         | Some image_format \<Rightarrow>
             Returns (case map_of pil_to_type_map image_format of
                        None \<Rightarrow> FILE_TYPE_UNKNOWN | Some t \<Rightarrow> t)))"

definition tex_file_extension_map :: "(str \<times> FileType list) list" where
  "tex_file_extension_map =
     [(asc ''.aux'', [FILE_TYPE_TEX_AUX]),
      (asc ''.bbl'', [FILE_TYPE_TEX_BBL]),
      (asc ''.bib'', [FILE_TYPE_TEX_BIB]),
      (asc ''.bst'', [FILE_TYPE_TEX_BST]),
      (asc ''.clo'', [FILE_TYPE_TEX_CLO]),
      (asc ''.cls'', [FILE_TYPE_TEX_CLS]),
      (asc ''.dvi'', [FILE_TYPE_TEX_DVI]),
      (asc ''.fig'', [FILE_TYPE_TEX_FIG]),
      (asc ''.log'', [FILE_TYPE_TEX_LOG]),
      (asc ''.pstex'', [FILE_TYPE_TEX_PSTEX]),
      (asc ''.pstex_t'', [FILE_TYPE_TEX_PSTEX_T]),
      (asc ''.sty'', [FILE_TYPE_TEX_STY]),
      (asc ''.synctex'', [FILE_TYPE_TEX_SYNCTEX]),
      (asc ''.tex'',
         [FILE_TYPE_TEX_TEX, FILE_TYPE_TEX_LATEX_209_MAIN, FILE_TYPE_TEX_LATEX_2E_MAIN]),
      (asc ''.tikz'', [FILE_TYPE_TEX_TIKZ]),
      (asc ''.toc'', [FILE_TYPE_TEX_TOC])]"

definition tex_get_file_type_from_extension :: "world \<Rightarrow> str \<Rightarrow> FileType list" where
  "tex_get_file_type_from_extension w file_extension =
     (case map_of tex_file_extension_map (py_lower w file_extension) of
        None \<Rightarrow> [FILE_TYPE_UNKNOWN] | Some types \<Rightarrow> types)"

text \<open>The required patterns start with a backslash, code point 92.\<close>

definition tex_get_file_type_from_format :: "world \<Rightarrow> str \<Rightarrow> FileType outcome" where
  "tex_get_file_type_from_format w file_path =
     (if \<not> is_file w file_path then Raises FileNotFoundError
      else if is_utf8_encoded w file_path then
        (let latex2e_main_required_patterns =
               [92 # asc ''documentclass'', 92 # asc ''begin{document}'', 92 # asc ''end{document}''];
             latex209_main_required_patterns =
               [92 # asc ''documentstyle'', 92 # asc ''begin{document}'', 92 # asc ''end{document}''];
             buffer = read_text w file_path;
             is_latex2e_main_format =
               (\<forall>pattern \<in> set latex2e_main_required_patterns. contains buffer pattern);
             is_latex209_main_format =
               (\<forall>pattern \<in> set latex209_main_required_patterns. contains buffer pattern)
         in
           if is_latex2e_main_format then Returns FILE_TYPE_TEX_LATEX_2E_MAIN
           else if is_latex209_main_format then Returns FILE_TYPE_TEX_LATEX_209_MAIN
           else Returns FILE_TYPE_UNKNOWN)
      else Returns FILE_TYPE_UNKNOWN)"

section \<open>\<open>file/file_handler.py\<close>\<close>

definition archive_handler :: "world \<Rightarrow> handler" where
  "archive_handler w =
     \<lparr> extension_map_keys = map fst archive_file_extension_map,
       type_from_extension = archive_get_file_type_from_extension w,
       type_from_format = archive_get_file_type_from_format w \<rparr>"

definition image_handler :: "world \<Rightarrow> handler" where
  "image_handler w =
     \<lparr> extension_map_keys = map fst image_file_extension_map,
       type_from_extension = image_get_file_type_from_extension w,
       type_from_format = image_get_file_type_from_format w \<rparr>"

definition tex_handler :: "world \<Rightarrow> handler" where
  "tex_handler w =
     \<lparr> extension_map_keys = map fst tex_file_extension_map,
       type_from_extension = tex_get_file_type_from_extension w,
       type_from_format = tex_get_file_type_from_format w \<rparr>"

definition handler_of :: "external_handler \<Rightarrow> handler" where
  "handler_of h =
     \<lparr> extension_map_keys = ext_extension_map_keys h,
       type_from_extension = ext_type_from_extension h,
       type_from_format = (\<lambda>file_path. of_result (ext_type_from_format h file_path)) \<rparr>"

text \<open>The list \<open>_file_handlers\<close>, in its order.\<close>

definition file_handlers :: "world \<Rightarrow> handler list" where
  "file_handlers w =
     [archive_handler w, image_handler w, handler_of (pdf_handler w),
      handler_of (postscript_handler w), tex_handler w, handler_of (xml_handler w)]"

text \<open>
  \<open>_get_file_handlers_from_extension\<close> builds the map from each lower-cased extension
  to the handlers that list it, in the handlers' order, and looks the extension up.
\<close>

definition get_file_handlers_from_extension :: "world \<Rightarrow> str \<Rightarrow> handler list" where
  "get_file_handlers_from_extension w extension =
     filter (\<lambda>h. py_lower w extension \<in> set (map (py_lower w) (extension_map_keys h)))
       (file_handlers w)"

definition get_file_type_using_extension :: "world \<Rightarrow> str \<Rightarrow> FileType list" where
  "get_file_type_using_extension w file_extension =
     (if length file_extension > 0
      then concat (map (\<lambda>file_handler. type_from_extension file_handler file_extension)
                     (get_file_handlers_from_extension w (py_lower w file_extension)))
      else [])"

definition get_file_type_from_extension :: "world \<Rightarrow> str \<Rightarrow> FileType list" where
  "get_file_type_from_extension w file_path =
     get_file_type_using_extension w (py_lower w (get_file_extension file_path))"

text \<open>The loop over the handlers: it stops at the first type that is not unknown.\<close>

fun first_known_type :: "handler list \<Rightarrow> str \<Rightarrow> FileType \<Rightarrow> FileType outcome" where
  "first_known_type [] file_path found = Returns found"
| "first_known_type (file_handler # rest) file_path found =
     bind_outcome (type_from_format file_handler file_path) (\<lambda>found.
       if found \<noteq> FILE_TYPE_UNKNOWN then Returns found
       else first_known_type rest file_path found)"

definition get_file_type_from_format :: "world \<Rightarrow> str \<Rightarrow> bool \<Rightarrow> FileType outcome" where
  "get_file_type_from_format w file_path use_extension =
     (if \<not> is_file w file_path then Raises FileNotFoundError
      else
        (let file_handler_list =
               (if use_extension
                then get_file_handlers_from_extension w
                       (py_lower w (get_file_extension file_path))
                else file_handlers w)
         in first_known_type file_handler_list file_path FILE_TYPE_UNKNOWN))"

text \<open>
  Modelled from the spec: \<open>hash_service.py\<close>, with the enumeration \<open>HashType\<close>, is
  not among the sources. The content hash set maps the name of a hash algorithm to the
  digest; the names are the keys \<open>MD5\<close> and \<open>SHA256\<close> under which the manifest and
  the registrars read the digests.
\<close>

definition hash_type_value :: "HashType \<Rightarrow> str" where
  "hash_type_value h = (case h of HASH_TYPE_MD5 \<Rightarrow> asc ''MD5'' | HASH_TYPE_SHA256 \<Rightarrow> asc ''SHA256'')"

definition get_metadata :: "world \<Rightarrow> str \<Rightarrow> HashType list \<Rightarrow> metadata outcome" where
  "get_metadata w file_path hash_types =
     (if \<not> is_file w file_path then Raises FileNotFoundError
      else
        bind_outcome (get_file_type_from_format w file_path True) (\<lambda>file_type_by_format.
          Returns
            \<lparr> filename = get_file_basename file_path,
              size_bytes = get_file_size w file_path,
              hash = foldl (\<lambda>d hash_type.
                        dict_set d (hash_type_value hash_type)
                          (calculate_file_hash w file_path hash_type)) [] hash_types,
              timestamp_iso = get_file_timestamp w file_path,
              file_type = file_type_by_format,
              submission_type_by_extension = None \<rparr>))"

section \<open>\<open>arxiv/submission_handler.py\<close>\<close>

text \<open>The pattern \<open>^([a-z\-]+)(\d{2})(\d{2})(\d{3})$\<close> on the name without its extension.\<close>

definition parse_old_style_submission_filename ::
  "world \<Rightarrow> str \<Rightarrow> (str \<times> str \<times> str \<times> str) option" where
  "parse_old_style_submission_filename w file_name =
     (let basename = get_file_basename file_name;
          (basename_no_ext, ext) = splitext basename
      in
        if ext \<in> {asc ''.gz'', asc ''.pdf''} then
          (case matched_to_dollar
                  (\<lambda>s. 7 < length s
                       \<and> (\<forall>c \<in> set (take (length s - 7) s). (97 \<le> c \<and> c \<le> 122) \<or> c = 45)
                       \<and> (\<forall>c \<in> set (drop (length s - 7) s). is_decimal w c))
                  basename_no_ext of
             None \<Rightarrow> None
           | Some s \<Rightarrow>
               (let category = take (length s - 7) s;
                    digits = drop (length s - 7) s
                in Some (category, take 2 digits, take 2 (drop 2 digits), drop 4 digits)))
        else None)"

text \<open>The pattern \<open>^(\d{2})(\d{2})\.(\d{4,5})$\<close> on the name without its extension.\<close>

definition parse_current_style_submission_filename ::
  "world \<Rightarrow> str \<Rightarrow> (str \<times> str \<times> str) option" where
  "parse_current_style_submission_filename w file_name =
     (let basename = get_file_basename file_name;
          (basename_no_ext, ext) = splitext basename
      in
        if ext \<in> {asc ''.gz'', asc ''.pdf''} then
          (case matched_to_dollar
                  (\<lambda>s. (length s = 9 \<or> length s = 10)
                       \<and> (\<forall>c \<in> set (take 4 s). is_decimal w c)
                       \<and> s ! 4 = 46
                       \<and> (\<forall>c \<in> set (drop 5 s). is_decimal w c))
                  basename_no_ext of
             None \<Rightarrow> None
           | Some s \<Rightarrow> Some (take 2 s, take 2 (drop 2 s), drop 5 s))
        else None)"

definition is_submission_filename :: "world \<Rightarrow> str \<Rightarrow> bool" where
  "is_submission_filename w file_name =
     (case parse_old_style_submission_filename w file_name of
        Some (category, yy, mm, number) \<Rightarrow>
          py_isdigit w mm \<and> 1 \<le> py_int w mm \<and> py_int w mm \<le> 12
      | None \<Rightarrow>
          (case parse_current_style_submission_filename w file_name of
             Some (yy, mm, number) \<Rightarrow>
               py_isdigit w mm \<and> 1 \<le> py_int w mm \<and> py_int w mm \<le> 12
           | None \<Rightarrow> False))"

definition generate_url_for_submission_filename :: "world \<Rightarrow> str \<Rightarrow> str outcome" where
  "generate_url_for_submission_filename w file_name =
     (let base_url = asc ''https://arxiv.org/abs/'' in
        case parse_old_style_submission_filename w file_name of
          Some (category, yy, mm, number) \<Rightarrow>
            Returns (base_url @ category @ asc ''/'' @ yy @ mm @ number)
        | None \<Rightarrow>
            (case parse_current_style_submission_filename w file_name of
               Some (yy, mm, number) \<Rightarrow> Returns (base_url @ yy @ mm @ asc ''.'' @ number)
             | None \<Rightarrow> Raises ValueError))"

definition get_submission_type_using_extension :: "world \<Rightarrow> str list \<Rightarrow> SubmissionType" where
  "get_submission_type_using_extension w submission_file_list =
     (let tex_types =
            {FILE_TYPE_TEX_TEX, FILE_TYPE_TEX_LATEX_209_MAIN, FILE_TYPE_TEX_LATEX_2E_MAIN};
          tex_supporting_types =
            {FILE_TYPE_TEX_LOG, FILE_TYPE_TEX_FIG, FILE_TYPE_IMAGE_GIF, FILE_TYPE_IMAGE_PNG,
             FILE_TYPE_IMAGE_JPG, FILE_TYPE_TEX_BIB, FILE_TYPE_TEX_CLO, FILE_TYPE_TEX_BST,
             FILE_TYPE_TEX_TOC, FILE_TYPE_TEX_CLS, FILE_TYPE_TEX_BBL, FILE_TYPE_POSTSCRIPT_EPSF,
             FILE_TYPE_TEX_PSTEX_T, FILE_TYPE_TEX_PSTEX, FILE_TYPE_TEX_STY,
             FILE_TYPE_TEX_LATEX_209_MAIN, FILE_TYPE_TEX_LATEX_2E_MAIN, FILE_TYPE_TEX_TEX,
             FILE_TYPE_PDF, FILE_TYPE_POSTSCRIPT_PS, FILE_TYPE_POSTSCRIPT_EPSI,
             FILE_TYPE_POSTSCRIPT_EPS};
          file_types =
            set (concat (map (\<lambda>file_name.
                   let current_file_type_list = get_file_type_from_extension w file_name in
                     if length current_file_type_list = 0 then [FILE_TYPE_UNKNOWN]
                     else current_file_type_list) submission_file_list))
      in
        if {FILE_TYPE_POSTSCRIPT_PS} = file_types then SUBMISSION_TYPE_POSTSCRIPT
        else if {FILE_TYPE_PDF} = file_types then SUBMISSION_TYPE_PDF
        else if tex_types \<inter> file_types \<noteq> {} then
          (let residual = file_types - tex_supporting_types in
             if residual = {} then SUBMISSION_TYPE_TEX else SUBMISSION_TYPE_UNKNOWN)
        else SUBMISSION_TYPE_UNKNOWN)"

text \<open>\<open>FileType.value\<close>, for the message of \<open>check_submission\<close>.\<close>

definition file_type_value :: "FileType \<Rightarrow> str" where
  "file_type_value t =
     (case t of
        FILE_TYPE_UNKNOWN \<Rightarrow> asc ''UNKNOWN''
      | FILE_TYPE_ARCHIVE_GZ \<Rightarrow> asc ''ARCHIVE_GZ''
      | FILE_TYPE_ARCHIVE_TAR \<Rightarrow> asc ''ARCHIVE_TAR''
      | FILE_TYPE_ARCHIVE_TGZ \<Rightarrow> asc ''ARCHIVE_TGZ''
      | FILE_TYPE_IMAGE_BMP \<Rightarrow> asc ''IMAGE_BMP''
      | FILE_TYPE_IMAGE_GIF \<Rightarrow> asc ''IMAGE_GIF''
      | FILE_TYPE_IMAGE_ICO \<Rightarrow> asc ''IMAGE_ICO''
      | FILE_TYPE_IMAGE_JPG \<Rightarrow> asc ''IMAGE_JPG''
      | FILE_TYPE_IMAGE_PNG \<Rightarrow> asc ''IMAGE_PNG''
      | FILE_TYPE_IMAGE_SVG \<Rightarrow> asc ''IMAGE_SVG''
      | FILE_TYPE_IMAGE_TIFF \<Rightarrow> asc ''IMAGE_TIFF''
      | FILE_TYPE_PDF \<Rightarrow> asc ''PDF''
      | FILE_TYPE_POSTSCRIPT_PS \<Rightarrow> asc ''POSTSCRIPT_PS''
      | FILE_TYPE_POSTSCRIPT_EPS \<Rightarrow> asc ''POSTSCRIPT_EPS''
      | FILE_TYPE_POSTSCRIPT_EPSF \<Rightarrow> asc ''POSTSCRIPT_EPSF''
      | FILE_TYPE_POSTSCRIPT_EPSI \<Rightarrow> asc ''POSTSCRIPT_EPSI''
      | FILE_TYPE_XML \<Rightarrow> asc ''XML''
      | FILE_TYPE_TEX_AUX \<Rightarrow> asc ''TEX_AUX''
      | FILE_TYPE_TEX_BBL \<Rightarrow> asc ''TEX_BBL''
      | FILE_TYPE_TEX_BIB \<Rightarrow> asc ''TEX_BIB''
      | FILE_TYPE_TEX_BST \<Rightarrow> asc ''TEX_BST''
      | FILE_TYPE_TEX_CLO \<Rightarrow> asc ''TEX_CLO''
      | FILE_TYPE_TEX_CLS \<Rightarrow> asc ''TEX_CLS''
      | FILE_TYPE_TEX_DVI \<Rightarrow> asc ''TEX_DVI''
      | FILE_TYPE_TEX_FIG \<Rightarrow> asc ''TEX_FIG''
      | FILE_TYPE_TEX_LOG \<Rightarrow> asc ''TEX_LOG''
      | FILE_TYPE_TEX_PSTEX \<Rightarrow> asc ''TEX_PSTEX''
      | FILE_TYPE_TEX_PSTEX_T \<Rightarrow> asc ''TEX_PSTEX_T''
      | FILE_TYPE_TEX_STY \<Rightarrow> asc ''TEX_STY''
      | FILE_TYPE_TEX_SYNCTEX \<Rightarrow> asc ''TEX_SYNCTEX''
      | FILE_TYPE_TEX_TEX \<Rightarrow> asc ''TEX_TEX''
      | FILE_TYPE_TEX_LATEX_209_MAIN \<Rightarrow> asc ''TEX_LATEX_209_MAIN''
      | FILE_TYPE_TEX_LATEX_2E_MAIN \<Rightarrow> asc ''TEX_LATEX_2E_MAIN''
      | FILE_TYPE_TEX_TIKZ \<Rightarrow> asc ''TEX_TIKZ''
      | FILE_TYPE_TEX_TOC \<Rightarrow> asc ''TEX_TOC'')"

definition check_submission :: "world \<Rightarrow> str \<Rightarrow> str list outcome" where
  "check_submission w file_path =
     (let allowed_file_types = [FILE_TYPE_ARCHIVE_GZ, FILE_TYPE_ARCHIVE_TGZ, FILE_TYPE_PDF];
          allowed_archive_file_types = [FILE_TYPE_ARCHIVE_GZ, FILE_TYPE_ARCHIVE_TGZ];
          error_list = [];
          error_list =
            (if \<not> is_submission_filename w file_path
             then error_list @
               [asc ''Filename '' @ file_path @ asc '' does not match submission pattern'']
             else error_list);
          error_list =
            (if error_list = [] \<and> \<not> is_file w file_path
             then error_list @ [asc ''File '' @ file_path @ asc '' not found'']
             else error_list)
      in
        if error_list = [] then
          (let file_types_by_extension = get_file_type_from_extension w file_path in
           bind_outcome (get_file_type_from_format w file_path True) (\<lambda>file_type_by_format.
             let error_list =
                   (if \<not> (\<exists>file_type \<in> set file_types_by_extension.
                             file_type \<in> set allowed_file_types)
                    then error_list @ [asc ''File extension type is not allowed'']
                    else if file_type_by_format \<notin> set allowed_file_types
                    then error_list @
                      [asc ''File type '' @ file_type_value file_type_by_format
                         @ asc '' not allowed'']
                    else if file_type_by_format \<notin> set file_types_by_extension
                    then error_list @ [asc ''File format does not match file extension'']
                    else error_list)
             in
               if error_list = [] \<and> file_type_by_format \<in> set allowed_archive_file_types then
                 bind_outcome (check_extract_possible w file_path (asc ''/''))
                   (\<lambda>archive_errors. Returns (error_list @ archive_errors))
               else Returns error_list))
        else Returns error_list)"

definition is_submission_valid :: "world \<Rightarrow> str \<Rightarrow> bool outcome" where
  "is_submission_valid w file_path =
     bind_outcome (check_submission w file_path) (\<lambda>error_list. Returns (length error_list = 0))"

definition submission_generate_registry_entry ::
  "world \<Rightarrow> str \<Rightarrow> str \<Rightarrow> (str \<times> entry \<times> str list) outcome" where
  "submission_generate_registry_entry w file_path bulk_archive_key =
     (let hash_types = [HASH_TYPE_MD5, HASH_TYPE_SHA256] in
        if \<not> is_file w file_path then Raises FileNotFoundError
        else
          bind_outcome (check_submission w file_path) (\<lambda>submission_errors.
          bind_outcome (generate_url_for_submission_filename w file_path) (\<lambda>url.
          bind_outcome (get_metadata w file_path hash_types) (\<lambda>metadata.
          bind_outcome (dict_get (hash metadata) (asc ''SHA256'')) (\<lambda>registry_key.
          bind_outcome
            (if length submission_errors > 0 then Returns SUBMISSION_TYPE_UNKNOWN
             else if file_type metadata \<in> set [FILE_TYPE_PDF] then Returns SUBMISSION_TYPE_PDF
             else if file_type metadata \<in> set [FILE_TYPE_ARCHIVE_GZ, FILE_TYPE_ARCHIVE_TGZ] then
               bind_outcome (list_contents w file_path) (\<lambda>archive_contents.
                 Returns (get_submission_type_using_extension w archive_contents))
             else Returns SUBMISSION_TYPE_UNKNOWN)
            (\<lambda>submission_type.
               let metadata = metadata \<lparr> submission_type_by_extension := Some submission_type \<rparr>;
                   submission_errors =
                     (if length submission_errors = 0 \<and> submission_type = SUBMISSION_TYPE_UNKNOWN
                      then submission_errors @ [asc ''Unknown submission type'']
                      else submission_errors);
                   registry_entry =
                     Entry metadata (Submission_origin url bulk_archive_key) None
               in Returns (registry_key, registry_entry, submission_errors)))))))"

section \<open>\<open>arxiv/bulk_archive_handler.py\<close>\<close>

text \<open>The pattern \<open>^arXiv_src_(\d{2})(\d{2})_(\d{3})\.tar$\<close> on the base name.\<close>

definition parse_bulk_archive_filename :: "world \<Rightarrow> str \<Rightarrow> (str \<times> str \<times> str) option" where
  "parse_bulk_archive_filename w file_name =
     (let basename = get_file_basename file_name in
        case matched_to_dollar
               (\<lambda>s. length s = 22
                    \<and> take 10 s = asc ''arXiv_src_''
                    \<and> (\<forall>c \<in> set (take 4 (drop 10 s)). is_decimal w c)
                    \<and> s ! 14 = 95
                    \<and> (\<forall>c \<in> set (take 3 (drop 15 s)). is_decimal w c)
                    \<and> drop 18 s = asc ''.tar'')
               basename of
          None \<Rightarrow> None
        | Some s \<Rightarrow> Some (take 2 (drop 10 s), take 2 (drop 12 s), take 3 (drop 15 s)))"

definition is_bulk_archive_filename :: "world \<Rightarrow> str \<Rightarrow> bool" where
  "is_bulk_archive_filename w file_name =
     (case parse_bulk_archive_filename w file_name of
        Some (yy, mm, seq_num) \<Rightarrow> py_isdigit w mm \<and> 1 \<le> py_int w mm \<and> py_int w mm \<le> 12
      | None \<Rightarrow> False)"

definition generate_uri_for_bulk_archive_filename :: "world \<Rightarrow> str \<Rightarrow> str outcome" where
  "generate_uri_for_bulk_archive_filename w file_name =
     (let base_uri = asc ''s3://arxiv/src/'' in
        if \<not> is_bulk_archive_filename w file_name then Raises ValueError
        else Returns (base_uri @ get_file_basename file_name))"

definition check_bulk_archive :: "world \<Rightarrow> str \<Rightarrow> str list outcome" where
  "check_bulk_archive w file_path =
     (let error_list = [];
          error_list =
            (if \<not> is_bulk_archive_filename w file_path
             then error_list @
               [asc ''Filename '' @ file_path @ asc '' does not match bulk archive pattern'']
             else error_list);
          error_list =
            (if error_list = [] \<and> \<not> is_file w file_path
             then error_list @ [asc ''File '' @ file_path @ asc '' not found'']
             else error_list)
      in
        bind_outcome
          (if error_list = [] then
             (if FILE_TYPE_ARCHIVE_TAR \<notin> set (get_file_type_from_extension w file_path)
              then Returns (error_list @ [asc ''File extension is not tar''])
              else bind_outcome (get_file_type_from_format w file_path True)
                     (\<lambda>file_type_by_format.
                        if FILE_TYPE_ARCHIVE_TAR \<noteq> file_type_by_format
                        then Returns (error_list @ [asc ''File format is not tar''])
                        else Returns error_list))
           else Returns error_list)
          (\<lambda>error_list.
        bind_outcome
          (if error_list = [] then
             bind_outcome (check_extract_possible w file_path (asc ''/''))
               (\<lambda>archive_errors. Returns (error_list @ archive_errors))
           else Returns error_list)
          (\<lambda>error_list.
             if error_list = [] then
               bind_outcome (list_contents w file_path) (\<lambda>archive_contents.
                 let invalid_entries =
                       filter (\<lambda>e. \<not> is_submission_filename w e) archive_contents
                 in
                   if invalid_entries \<noteq> [] then
                     Returns (error_list @
                       [asc ''Archive entries do not match submission filename pattern: ''
                          @ join_with (asc '', '') invalid_entries])
                   else Returns error_list)
             else Returns error_list)))"

definition is_bulk_archive_valid :: "world \<Rightarrow> str \<Rightarrow> bool outcome" where
  "is_bulk_archive_valid w file_path =
     bind_outcome (check_bulk_archive w file_path) (\<lambda>error_list. Returns (length error_list = 0))"

definition bulk_generate_registry_entry ::
  "world \<Rightarrow> str \<Rightarrow> (str \<times> entry \<times> str list) outcome" where
  "bulk_generate_registry_entry w file_path =
     (let hash_types = [HASH_TYPE_MD5, HASH_TYPE_SHA256] in
        if \<not> is_file w file_path then Raises FileNotFoundError
        else
          bind_outcome (check_bulk_archive w file_path) (\<lambda>bulk_archive_errors.
          bind_outcome (generate_uri_for_bulk_archive_filename w file_path) (\<lambda>uri.
          bind_outcome (get_metadata w file_path hash_types) (\<lambda>metadata.
          bind_outcome (dict_get (hash metadata) (asc ''SHA256'')) (\<lambda>registry_key.
            let registry_entry = Entry metadata (Bulk_origin uri) None
            in Returns (registry_key, registry_entry, bulk_archive_errors))))))"

section \<open>\<open>arxiv/bulk_archive_registry.py\<close>\<close>

text \<open>
  Both registrars override \<open>add_entry\<close> and \<open>update_entry\<close> to raise
  \<open>AttributeError\<close>; their own registration method writes through the base class's
  \<open>add_entry\<close>.
\<close>

definition registrar_add_entry :: "registry \<Rightarrow> str \<Rightarrow> entry \<Rightarrow> unit outcome \<times> registry" where
  "registrar_add_entry reg hash_key e = (Raises AttributeError, reg)"

definition registrar_update_entry :: "registry \<Rightarrow> str \<Rightarrow> entry \<Rightarrow> unit outcome \<times> registry" where
  "registrar_update_entry reg hash_key e = (Raises AttributeError, reg)"

definition find_bulk_archive_filename :: "registry \<Rightarrow> str \<Rightarrow> str option" where
  "find_bulk_archive_filename reg file_path =
     (let basename = get_file_basename file_path;
          registry_keys =
            map fst (filter (\<lambda>(key, e). filename (entry_metadata e) = basename) reg)
      in case registry_keys of [] \<Rightarrow> None | registry_key # _ \<Rightarrow> Some registry_key)"

definition register_bulk_archive :: "world \<Rightarrow> registry \<Rightarrow> str \<Rightarrow> unit outcome \<times> registry" where
  "register_bulk_archive w reg file_path =
     (if \<not> is_file w file_path then (Raises FileNotFoundError, reg)
      else if \<not> is_bulk_archive_filename w file_path then (Raises ValueError, reg)
      else if find_bulk_archive_filename reg file_path \<noteq> None then (Raises ValueError, reg)
      else
        (case bulk_generate_registry_entry w file_path of
           Raises e \<Rightarrow> (Raises e, reg)
         | Hangs \<Rightarrow> (Hangs, reg)
         | Returns (registry_key, registry_entry, bulk_archive_errors) \<Rightarrow>
             if length bulk_archive_errors > 0 then (Raises ValueError, reg)
             else if is_key_present reg registry_key then
               (case get_entry reg registry_key of
                  Raises e \<Rightarrow> (Raises e, reg)
                | Hangs \<Rightarrow> (Hangs, reg)
                | Returns existing_entry \<Rightarrow>
                    if existing_entry \<noteq> registry_entry then (Raises KeyError, reg)
                    else (Returns (), reg))
             else add_entry reg registry_key registry_entry))"

section \<open>\<open>arxiv/submission_registry.py\<close>\<close>

text \<open>
  \<open>get_entry\<close> hands out the entry held by the registry, so the two \<open>setdefault\<close>
  calls, the \<open>append\<close> calls and the assignment of \<open>key_conflicts\<close> change the
  registered entry itself. When \<open>error_log\<close> already holds the marker but the
  diagnostics have no \<open>key_conflicts\<close>, the subscript raises \<open>KeyError\<close>; nothing has
  been changed by then, because an entry whose log holds the marker already has both
  dictionaries.
\<close>

definition register_submission ::
  "world \<Rightarrow> registry \<Rightarrow> str \<Rightarrow> str \<Rightarrow> unit outcome \<times> registry" where
  "register_submission w reg file_path bulk_archive_key =
     (if \<not> is_file w file_path then (Raises FileNotFoundError, reg)
      else if \<not> is_submission_filename w file_path then (Raises ValueError, reg)
      else
        (case submission_generate_registry_entry w file_path bulk_archive_key of
           Raises e \<Rightarrow> (Raises e, reg)
         | Hangs \<Rightarrow> (Hangs, reg)
         | Returns (registry_key, registry_entry, submission_errors) \<Rightarrow>
             (let registry_entry =
                    (if length submission_errors > 0
                     then Entry (entry_metadata registry_entry) (entry_origin registry_entry)
                            (Some (Diagnostics (Some submission_errors) None))
                     else registry_entry)
              in
                if is_key_present reg registry_key then
                  (case get_entry reg registry_key of
                     Raises e \<Rightarrow> (Raises e, reg)
                   | Hangs \<Rightarrow> (Hangs, reg)
                   | Returns existing_entry \<Rightarrow>
                       if entry_metadata existing_entry \<noteq> entry_metadata registry_entry then
                         (let diagnostics =
                                (case entry_diagnostics existing_entry of
                                   None \<Rightarrow> Diagnostics None None | Some d \<Rightarrow> d);
                              log = (case error_log diagnostics of None \<Rightarrow> [] | Some l \<Rightarrow> l);
                              marked = (asc ''key conflicts'' \<in> set log);
                              log = (if \<not> marked then log @ [asc ''key conflicts''] else log);
                              conflicts =
                                (if \<not> marked then Some [] else key_conflicts diagnostics)
                          in
                            case conflicts of
                              None \<Rightarrow> (Raises KeyError, reg)
                            | Some rejected \<Rightarrow>
                                (Returns (),
                                 dict_set reg registry_key
                                   (Entry (entry_metadata existing_entry)
                                      (entry_origin existing_entry)
                                      (Some (Diagnostics (Some log)
                                         (Some (rejected @ [registry_entry])))))))
                       else (Returns (), reg))
                else add_entry reg registry_key registry_entry)))"

text \<open>A sequence of registration calls on one registry; it ends at the first call that does
  not return.\<close>

fun register_submissions ::
  "world \<Rightarrow> registry \<Rightarrow> (str \<times> str) list \<Rightarrow> unit outcome \<times> registry" where
  "register_submissions w reg [] = (Returns (), reg)"
| "register_submissions w reg ((file_path, bulk_archive_key) # calls) =
     (case register_submission w reg file_path bulk_archive_key of
        (Returns u, reg') \<Rightarrow> register_submissions w reg' calls
      | (r, reg') \<Rightarrow> (r, reg'))"

section \<open>Example worlds\<close>

definition no_handler :: external_handler where
  "no_handler =
     \<lparr> ext_extension_map_keys = [], ext_type_from_extension = (\<lambda>_. [FILE_TYPE_UNKNOWN]),
       ext_type_from_format = (\<lambda>_. Inr FILE_TYPE_UNKNOWN) \<rparr>"

text \<open>An empty world: no files, no directories, ASCII only.\<close>

definition empty_world :: world where
  "empty_world =
     \<lparr> is_file = (\<lambda>_. False), is_directory = (\<lambda>_. False), get_file_size = (\<lambda>_. 0),
       get_file_timestamp = (\<lambda>_. []), is_utf8_encoded = (\<lambda>_. False),
       calculate_file_hash = (\<lambda>_ _. []),
       pdf_handler = no_handler, postscript_handler = no_handler, xml_handler = no_handler,
       read_bytes = (\<lambda>_. []), read_text = (\<lambda>_. []),
       tarfile_is_tarfile = (\<lambda>_. False), gzip_read_ok = (\<lambda>_. False),
       tarfile_members = (\<lambda>_. []), pil_image_format = (\<lambda>_. None),
       getcwd = asc ''/'', fromisoformat = (\<lambda>_. None),
       json_load = (\<lambda>_. Raises ValueError),
       uc_alnum = (\<lambda>_. False), uc_decimal = (\<lambda>_. None), uc_lower = (\<lambda>s. s) \<rparr>"

text \<open>
  A world with a few files in the working directory \<open>/\<close>, all with the same content
  digests:
  \<^item> \<open>evil.tar\<close>, a tar archive whose members are \<open>../x\<close>, \<open>a.txt\<close> and \<open>A.txt\<close>;
  \<^item> \<open>arXiv_src_9902_005.tar\<close>, a tar archive with the one member \<open>1202.3054.gz\<close>, and
    \<open>arXiv_src_9903_001.tar\<close>, which has the name of a bulk archive but is no tar file;
  \<^item> \<open>hep-th9901001.gz\<close> and \<open>1202.3054.gz\<close>, named like submissions but neither gzip
    nor tar;
  \<^item> three files accepted by the gzip reader. \<open>name.gz\<close> and \<open>latin1.gz\<close> are gzip
    files of an empty content (the deflate block \<open>03 00\<close>, then checksum and size):
    \<open>name.gz\<close> has flag bits 2 and 3, an extra field of four bytes, two of them zero,
    and the name \<open>a.txt\<close>; \<open>latin1.gz\<close> has flag bit 3 and the one-byte name
    \<open>0xE9\<close>, the ISO 8859-1 code of the letter e with an acute accent.
    \<open>bad.gz\<close> is twelve zero bytes; that the gzip reader accepts it stands for the
    patched \<open>is_gzip_format\<close> of the repository's test of this case.
\<close>

definition example_world :: world where
  "example_world =
     empty_world
       \<lparr> is_file :=
           (\<lambda>p. p \<in> {asc ''evil.tar'', asc ''bad.gz'', asc ''name.gz'', asc ''latin1.gz'',
                       asc ''arXiv_src_9902_005.tar'', asc ''arXiv_src_9903_001.tar'',
                       asc ''hep-th9901001.gz'', asc ''1202.3054.gz''}),
         is_directory := (\<lambda>p. p = asc ''/''),
         calculate_file_hash :=
           (\<lambda>p h. case h of HASH_TYPE_MD5 \<Rightarrow> asc ''m'' | HASH_TYPE_SHA256 \<Rightarrow> asc ''K''),
         read_bytes :=
           (\<lambda>p. if p = asc ''bad.gz'' then [0, 0, 0, 0, 0, 0, 0, 0, 0, 0, 0, 0]
                 else if p = asc ''name.gz''
                   then [0x1F, 0x8B, 0x08, 0x0C, 0, 0, 0, 0, 0, 3, 4, 0, 0x41, 0x70, 0, 0,
                         0x61, 0x2E, 0x74, 0x78, 0x74, 0, 3, 0, 0, 0, 0, 0, 0, 0, 0, 0]
                 else if p = asc ''latin1.gz''
                   then [0x1F, 0x8B, 0x08, 0x08, 0, 0, 0, 0, 0, 3, 0xE9, 0,
                         3, 0, 0, 0, 0, 0, 0, 0, 0, 0]
                 else []),
         tarfile_is_tarfile := (\<lambda>p. p \<in> {asc ''evil.tar'', asc ''arXiv_src_9902_005.tar''}),
         gzip_read_ok := (\<lambda>p. p \<in> {asc ''bad.gz'', asc ''name.gz'', asc ''latin1.gz''}),
         tarfile_members :=
           (\<lambda>p. if p = asc ''evil.tar''
                   then [(asc ''../x'', True), (asc ''a.txt'', True), (asc ''A.txt'', True)]
                 else if p = asc ''arXiv_src_9902_005.tar'' then [(asc ''1202.3054.gz'', True)]
                 else []) \<rparr>"

text \<open>The entries that registration builds in this world, and the registries they make.\<close>

definition example_hash :: "(str \<times> str) list" where
  "example_hash = [(asc ''MD5'', asc ''m''), (asc ''SHA256'', asc ''K'')]"

definition bulk_entry_1 :: entry where
  "bulk_entry_1 =
     Entry
       \<lparr> filename = asc ''arXiv_src_9902_005.tar'', size_bytes = 0, hash = example_hash,
         timestamp_iso = [], file_type = FILE_TYPE_ARCHIVE_TAR,
         submission_type_by_extension = None \<rparr>
       (Bulk_origin (asc ''s3://arxiv/src/arXiv_src_9902_005.tar''))
       None"

definition bulk_registry_1 :: registry where
  "bulk_registry_1 = [(asc ''K'', bulk_entry_1)]"

definition submission_metadata_1 :: metadata where
  "submission_metadata_1 =
     \<lparr> filename = asc ''hep-th9901001.gz'', size_bytes = 0, hash = example_hash,
       timestamp_iso = [], file_type = FILE_TYPE_UNKNOWN,
       submission_type_by_extension = Some SUBMISSION_TYPE_UNKNOWN \<rparr>"

definition submission_origin_1 :: origin where
  "submission_origin_1 = Submission_origin (asc ''https://arxiv.org/abs/hep-th/9901001'') (asc ''B'')"

definition submission_entry_1 :: entry where
  "submission_entry_1 =
     Entry submission_metadata_1 submission_origin_1
       (Some (Diagnostics (Some [asc ''File type UNKNOWN not allowed'']) None))"

definition submission_metadata_2 :: metadata where
  "submission_metadata_2 =
     \<lparr> filename = asc ''1202.3054.gz'', size_bytes = 0, hash = example_hash,
       timestamp_iso = [], file_type = FILE_TYPE_UNKNOWN,
       submission_type_by_extension = Some SUBMISSION_TYPE_UNKNOWN \<rparr>"

definition submission_origin_2 :: origin where
  "submission_origin_2 = Submission_origin (asc ''https://arxiv.org/abs/1202.3054'') (asc ''B'')"

definition submission_entry_2 :: entry where
  "submission_entry_2 =
     Entry submission_metadata_2 submission_origin_2
       (Some (Diagnostics (Some [asc ''File type UNKNOWN not allowed'']) None))"

definition conflicted_entry_1 :: "entry list \<Rightarrow> entry" where
  "conflicted_entry_1 rejected =
     Entry submission_metadata_1 submission_origin_1
       (Some (Diagnostics
          (Some [asc ''File type UNKNOWN not allowed'', asc ''key conflicts''])
          (Some rejected)))"

definition submission_registry_1 :: registry where
  "submission_registry_1 = [(asc ''K'', submission_entry_1)]"

definition submission_registry_2 :: registry where
  "submission_registry_2 = [(asc ''K'', conflicted_entry_1 [submission_entry_2])]"

definition submission_registry_3 :: registry where
  "submission_registry_3 =
     [(asc ''K'', conflicted_entry_1 [submission_entry_2, submission_entry_2])]"

text \<open>
  Two manifests of the scenario in the specification: \<open>M1\<close> generated at the later
  instant with keys \<open>a\<close> and \<open>b\<close>, \<open>M2\<close> generated earlier with key \<open>a\<close>.
\<close>

definition clock_world :: world where
  "clock_world =
     empty_world \<lparr> fromisoformat :=
       (\<lambda>s. if s = asc ''T1'' then Some (Aware 1)
             else if s = asc ''T2'' then Some (Aware 2) else None) \<rparr>"

definition some_manifest_entry :: manifest_entry where
  "some_manifest_entry =
     \<lparr> me_filename = [], me_size_bytes = 0, me_timestamp_iso = [], me_year = 0, me_month = 1,
       me_sequence_number = 0, me_n_submissions = 0, me_hash_MD5 = [],
       me_hash_MD5_contents = [] \<rparr>"

definition M1 :: manifest where
  "M1 = \<lparr> manifest_timestamp_iso = Some (asc ''T2''),
          contents = [(asc ''a'', some_manifest_entry), (asc ''b'', some_manifest_entry)] \<rparr>"

definition M2 :: manifest where
  "M2 = \<lparr> manifest_timestamp_iso = Some (asc ''T1''),
          contents = [(asc ''a'', some_manifest_entry)] \<rparr>"

section \<open>Manifest comparison\<close>

lemma is_newer_than_never_hangs: "is_newer_than w a b \<noteq> Hangs"
  by (auto simp add: is_newer_than_def is_iso_timestamp_newer_def datetime_gt_def Let_def
      split: option.splits outcome.splits datetime.splits)



text \<open>
  Claim C8. When \<open>is_newer_than\<close> finds the first manifest newer than the second,
  \<open>find_new_entries\<close> returns exactly the keys of the first that the second does not
  have; in every other case (the first is not newer, or the comparison itself raises) it
  raises instead of returning.
\<close>

theorem find_new_entries_newer_or_raises:
  "(is_newer_than w a b = Returns True \<longrightarrow>
      find_new_entries w a b = Returns (list_keys a - list_keys b))
   \<and> (is_newer_than w a b \<noteq> Returns True \<longrightarrow> (\<exists>e. find_new_entries w a b = Raises e))"
proof (cases "is_newer_than w a b")
  case (Returns newer)
  then show ?thesis by (simp add: find_new_entries_def)
next
  case (Raises e)
  then show ?thesis by (simp add: find_new_entries_def)
next
  case Hangs
  with is_newer_than_never_hangs [of w a b] show ?thesis by simp
qed

lemma M1_newer_than_M2: "is_newer_than clock_world M1 M2 = Returns True"
  by (simp add: is_newer_than_def is_iso_timestamp_newer_def datetime_gt_def Let_def
      M1_def M2_def clock_world_def empty_world_def list_keys_def asc_def)

lemma M2_not_newer_than_M1: "is_newer_than clock_world M2 M1 = Returns False"
  by (simp add: is_newer_than_def is_iso_timestamp_newer_def datetime_gt_def Let_def
      M1_def M2_def clock_world_def empty_world_def list_keys_def asc_def)

theorem find_new_entries_newer_or_raises_witness:
  "is_newer_than clock_world M1 M2 = Returns True
   \<and> find_new_entries clock_world M1 M2 = Returns {asc ''b''}
   \<and> is_newer_than clock_world M2 M1 \<noteq> Returns True
   \<and> (\<exists>e. find_new_entries clock_world M2 M1 = Raises e)"
proof -
  have ks: "list_keys M1 - list_keys M2 = {asc ''b''}"
    by (auto simp add: list_keys_def M1_def M2_def asc_def)
  have n: "is_newer_than clock_world M2 M1 \<noteq> Returns True"
    by (simp add: M2_not_newer_than_M1)
  from find_new_entries_newer_or_raises [of clock_world M1 M2] M1_newer_than_M2 ks
  have a: "find_new_entries clock_world M1 M2 = Returns {asc ''b''}"
    by simp
  from find_new_entries_newer_or_raises [of clock_world M2 M1] n
  have b: "\<exists>e. find_new_entries clock_world M2 M1 = Raises e"
    by blast
  from M1_newer_than_M2 a n b show ?thesis by blast
qed

section \<open>Loading a registry\<close>

text \<open>
  Claim C10. \<open>load\<close> of a path at which there is no file raises
  \<open>FileNotFoundError\<close>, and the registry is empty after the failed call, whatever it
  held before: the registry is cleared before the path is checked.
\<close>

theorem load_missing_file_clears_registry:
  assumes "\<not> is_file w file_path"
  shows "load w reg file_path = (Raises FileNotFoundError, [])"
  using assms by (simp add: load_def clear_def)

theorem load_missing_file_clears_registry_witness:
  "\<not> is_file example_world (asc ''missing.json'')
   \<and> load example_world submission_registry_1 (asc ''missing.json'')
       = (Raises FileNotFoundError, [])"
proof -
  have h: "\<not> is_file example_world (asc ''missing.json'')" by code_simp
  from load_missing_file_clears_registry [OF h, of submission_registry_1] h
  show ?thesis by simp
qed

section \<open>Format classification\<close>




section \<open>Listing the name in a gzip file\<close>




text \<open>A gzip-classified file of fewer than ten bytes makes \<open>struct.unpack\<close> raise.\<close>

lemma list_gzip_contents_short_file:
  assumes "is_file w p" "is_gzip_format w p = Returns True" "length (read_bytes w p) < 10"
  shows "list_gzip_contents w p = Raises StructError"
  using assms by (simp add: list_gzip_contents_def bind_outcome_def Let_def)




section \<open>Extraction safety\<close>

lemma isabs_normpath: "isabs p \<Longrightarrow> isabs (normpath p)"
  by (cases p) (auto simp add: isabs_def normpath_def startswith_def Let_def asc_def)

lemma isabs_path_join: "isabs a \<Longrightarrow> isabs (path_join a b)"
  by (cases a) (auto simp add: isabs_def path_join_def startswith_def)

lemma isabs_abspath: "isabs (getcwd w) \<Longrightarrow> isabs (abspath w p)"
  by (simp add: abspath_def isabs_normpath isabs_path_join)

lemma is_path_within_directory_returns:
  assumes "isabs (getcwd w)"
  shows "\<exists>b. is_path_within_directory w base target = Returns b"
  using isabs_abspath [OF assms]
  by (simp add: is_path_within_directory_def commonpath_def bind_outcome_def Let_def)

lemma is_filename_allowed_returns:
  assumes "isabs (getcwd w)"
  shows "\<exists>b. is_filename_allowed w n = Returns b
           \<and> (b \<longrightarrow> is_path_characters_allowed w n)"
proof -
  from is_path_within_directory_returns [OF assms]
  obtain b where "is_path_within_directory w (asc ''temp'') (path_join (asc ''temp'') n) = Returns b"
    by blast
  then show ?thesis
    by (simp add: is_filename_allowed_def bind_outcome_def Let_def)
qed

lemma dotdot_not_allowed:
  assumes "asc ''..'' \<in> set (split_on 47 n)"
  shows "\<not> is_path_characters_allowed w n"
  using assms by (auto simp add: is_path_characters_allowed_def)

lemma outcome_list_returns:
  assumes "\<forall>x \<in> set xs. \<exists>b. f x = Returns b \<and> (b \<longrightarrow> P x)"
  shows "\<exists>bs. outcome_list (map f xs) = Returns bs
           \<and> (list_all (\<lambda>b. b) bs \<longrightarrow> (\<forall>x \<in> set xs. P x))"
  using assms
proof (induction xs)
  case Nil
  then show ?case by simp
next
  case (Cons x xs)
  then obtain bs where bs: "outcome_list (map f xs) = Returns bs"
    "list_all (\<lambda>b. b) bs \<longrightarrow> (\<forall>x \<in> set xs. P x)" by auto
  from Cons.prems obtain b where b: "f x = Returns b" "b \<longrightarrow> P x" by auto
  from bs b show ?case by (simp add: bind_outcome_def)
qed

lemma case_collision_not_unique:
  assumes "i < j" "j < length names" "py_lower w (names ! i) = py_lower w (names ! j)"
  shows "\<not> is_filename_list_unique w names True False"
proof -
  let ?l = "map (py_lower w) names"
  from assms have "i < length names" "i \<noteq> j" by simp_all
  with assms have "\<exists>i<length ?l. \<exists>j<length ?l. i \<noteq> j \<and> ?l ! i = ?l ! j"
    by (intro exI [of _ i] conjI exI [of _ j]) simp_all
  then have "\<not> distinct ?l"
    unfolding distinct_conv_nth by blast
  then have "card (set ?l) \<noteq> length ?l"
    using card_distinct by blast
  then show ?thesis by (simp add: is_filename_list_unique_def)
qed

text \<open>
  Claim C6. Let the source file and the destination directory exist, let the working
  directory be an absolute path (as \<open>os.getcwd\<close> gives it), and let \<open>list_contents\<close>
  return the member names. If one name has a \<open>..\<close> segment, or two names at different
  positions are equal once lowered, then \<open>check_extract_possible\<close> returns a non-empty
  error list and \<open>is_extract_possible\<close> returns \<open>False\<close>.
\<close>

theorem unsafe_members_make_extraction_impossible:
  assumes src: "is_file w source_file_path"
    and dst: "is_directory w destination_directory"
    and cwd: "isabs (getcwd w)"
    and members: "list_contents w source_file_path = Returns names"
    and unsafe: "(\<exists>n \<in> set names. asc ''..'' \<in> set (split_on 47 n))
       \<or> (\<exists>i j. i < j \<and> j < length names \<and> py_lower w (names ! i) = py_lower w (names ! j))"
  shows "\<exists>errors. check_extract_possible w source_file_path destination_directory = Returns errors
           \<and> errors \<noteq> []
           \<and> is_extract_possible w source_file_path destination_directory = Returns False"
proof -
  from is_filename_allowed_returns [OF cwd]
  have "\<forall>n \<in> set names. \<exists>b. is_filename_allowed w n = Returns b
          \<and> (b \<longrightarrow> is_path_characters_allowed w n)"
    by blast
  from outcome_list_returns [OF this]
  obtain allowed where allowed: "outcome_list (map (is_filename_allowed w) names) = Returns allowed"
    and valid: "list_all (\<lambda>b. b) allowed \<longrightarrow> (\<forall>n \<in> set names. is_path_characters_allowed w n)"
    by blast
  have bad: "\<not> is_filename_list_unique w names True False \<or> \<not> list_all (\<lambda>b. b) allowed"
    using unsafe
  proof
    assume "\<exists>n \<in> set names. asc ''..'' \<in> set (split_on 47 n)"
    with valid dotdot_not_allowed show ?thesis by blast
  next
    assume "\<exists>i j. i < j \<and> j < length names \<and> py_lower w (names ! i) = py_lower w (names ! j)"
    with case_collision_not_unique show ?thesis by blast
  qed
  have "\<exists>errors. check_extract_possible w source_file_path destination_directory = Returns errors
           \<and> errors \<noteq> []"
    using src dst members allowed bad
    by (auto simp add: check_extract_possible_def bind_outcome_def Let_def)
  then show ?thesis
    by (auto simp add: is_extract_possible_def bind_outcome_def)
qed

theorem unsafe_members_make_extraction_impossible_witness:
  "is_file example_world (asc ''evil.tar'')
   \<and> is_directory example_world (asc ''/'')
   \<and> isabs (getcwd example_world)
   \<and> list_contents example_world (asc ''evil.tar'') = Returns [asc ''../x'', asc ''a.txt'', asc ''A.txt'']
   \<and> asc ''..'' \<in> set (split_on 47 (asc ''../x''))
   \<and> py_lower example_world (asc ''a.txt'') = py_lower example_world (asc ''A.txt'')
   \<and> (\<exists>errors. check_extract_possible example_world (asc ''evil.tar'') (asc ''/'') = Returns errors
         \<and> errors \<noteq> []
         \<and> is_extract_possible example_world (asc ''evil.tar'') (asc ''/'') = Returns False)"
proof -
  have h1: "is_file example_world (asc ''evil.tar'')" by code_simp
  have h2: "is_directory example_world (asc ''/'')" by code_simp
  have h3: "isabs (getcwd example_world)" by code_simp
  have h4: "list_contents example_world (asc ''evil.tar'')
              = Returns [asc ''../x'', asc ''a.txt'', asc ''A.txt'']"
    by code_simp
  have h5: "asc ''..'' \<in> set (split_on 47 (asc ''../x''))" by code_simp
  have h6: "py_lower example_world (asc ''a.txt'') = py_lower example_world (asc ''A.txt'')"
    by code_simp
  have unsafe: "(\<exists>n \<in> set [asc ''../x'', asc ''a.txt'', asc ''A.txt'']. asc ''..'' \<in> set (split_on 47 n))
       \<or> (\<exists>i j. i < j \<and> j < length [asc ''../x'', asc ''a.txt'', asc ''A.txt'']
            \<and> py_lower example_world ([asc ''../x'', asc ''a.txt'', asc ''A.txt''] ! i)
              = py_lower example_world ([asc ''../x'', asc ''a.txt'', asc ''A.txt''] ! j))"
    using h5 by simp
  from unsafe_members_make_extraction_impossible [OF h1 h2 h3 h4 unsafe] h1 h2 h3 h4 h5 h6
  show ?thesis by blast
qed

section \<open>Registration\<close>

subsection \<open>Dictionaries and the classification of formats\<close>

lemma dict_set_fresh: "k \<notin> set (map fst d) \<Longrightarrow> dict_set d k v = d @ [(k, v)]"
  by (induction d) auto

lemma dict_set_twice: "dict_set (dict_set d k v) k v' = dict_set d k v'"
  by (induction d) auto

lemma map_of_dict_set: "map_of (dict_set d k v) k = Some v"
  by (induction d) auto

lemma map_of_dict_set_other: "k' \<noteq> k \<Longrightarrow> map_of (dict_set d k v) k' = map_of d k'"
  by (induction d) auto

lemma keys_dict_set_present:
  "k \<in> set (map fst d) \<Longrightarrow> map fst (dict_set d k v) = map fst d"
  by (induction d) force+

lemma map_of_fresh: "k \<notin> set (map fst d) \<Longrightarrow> map_of (d @ [(k, v)]) k = Some v"
  by (induction d) auto

lemma count_fresh:
  "k \<notin> set (map fst d) \<Longrightarrow> length (filter (\<lambda>kv. fst kv = k) (d @ [(k, v)])) = 1"
  by (induction d) auto

lemma first_known_type_never_hangs:
  assumes "\<forall>h \<in> set hs. type_from_format h p \<noteq> Hangs"
  shows "first_known_type hs p t \<noteq> Hangs"
  using assms
  by (induction hs arbitrary: t) (auto simp add: bind_outcome_def split: outcome.splits)

lemma handlers_never_hang:
  "\<forall>h \<in> set (file_handlers w). type_from_format h p \<noteq> Hangs"
  by (auto simp add: file_handlers_def archive_handler_def image_handler_def tex_handler_def
      handler_of_def of_result_def archive_get_file_type_from_format_def is_tar_format_def
      is_tgz_format_def is_gzip_format_def image_get_file_type_from_format_def
      tex_get_file_type_from_format_def bind_outcome_def Let_def
      split: sum.splits option.splits)

lemma get_file_type_from_format_never_hangs: "get_file_type_from_format w p u \<noteq> Hangs"
  using handlers_never_hang [of w p]
  by (auto simp add: get_file_type_from_format_def get_file_handlers_from_extension_def Let_def
      intro!: first_known_type_never_hangs)

lemma get_metadata_never_hangs: "get_metadata w p hs \<noteq> Hangs"
  using get_file_type_from_format_never_hangs [of w p True]
  by (auto simp add: get_metadata_def bind_outcome_def split: outcome.splits)

subsection \<open>Bulk archives fail closed\<close>

lemma bulk_generate_registry_entry_errors:
  assumes "check_bulk_archive w p = Returns errs"
  shows "(\<exists>e. bulk_generate_registry_entry w p = Raises e)
       \<or> (\<exists>k en. bulk_generate_registry_entry w p = Returns (k, en, errs))"
  using assms get_metadata_never_hangs [of w p "[HASH_TYPE_MD5, HASH_TYPE_SHA256]"]
  by (auto simp add: bulk_generate_registry_entry_def bind_outcome_def Let_def
      generate_uri_for_bulk_archive_filename_def dict_get_def
      split: outcome.splits option.splits)

text \<open>
  Claim C2. When \<open>check_bulk_archive\<close> gives a non-empty error list for a file,
  \<open>register_bulk_archive\<close> raises, whatever the registry holds, and the registry after
  the call is the registry before it.
\<close>

theorem register_bulk_archive_fails_closed:
  assumes "check_bulk_archive w file_path = Returns bulk_archive_errors"
    and "bulk_archive_errors \<noteq> []"
  shows "\<exists>e. register_bulk_archive w reg file_path = (Raises e, reg)"
  using bulk_generate_registry_entry_errors [OF assms(1)] assms(2)
  by (auto simp add: register_bulk_archive_def)

theorem register_bulk_archive_fails_closed_witness:
  "check_bulk_archive example_world (asc ''arXiv_src_9903_001.tar'')
     = Returns [asc ''File format is not tar'']
   \<and> [asc ''File format is not tar''] \<noteq> []
   \<and> (\<exists>e. register_bulk_archive example_world bulk_registry_1 (asc ''arXiv_src_9903_001.tar'')
             = (Raises e, bulk_registry_1))"
proof -
  have h: "check_bulk_archive example_world (asc ''arXiv_src_9903_001.tar'')
             = Returns [asc ''File format is not tar'']"
    by code_simp
  have n: "[asc ''File format is not tar''] \<noteq> []" by simp
  from register_bulk_archive_fails_closed [OF h n, of bulk_registry_1] h show ?thesis
    by simp
qed

subsection \<open>Registering the same file twice\<close>

lemma bulk_generate_filename:
  assumes "bulk_generate_registry_entry w p = Returns (k, en, errs)"
  shows "filename (entry_metadata en) = get_file_basename p"
  using assms
  by (auto simp add: bulk_generate_registry_entry_def bind_outcome_def Let_def
      get_metadata_def split: if_splits outcome.splits)

lemma find_bulk_archive_filename_finds:
  assumes "(k, en) \<in> set reg" "filename (entry_metadata en) = get_file_basename p"
  shows "find_bulk_archive_filename reg p \<noteq> None"
proof -
  from assms
  have "(k, en) \<in> set (filter (\<lambda>(key, e). filename (entry_metadata e) = get_file_basename p) reg)"
    by simp
  then have "filter (\<lambda>(key, e). filename (entry_metadata e) = get_file_basename p) reg \<noteq> []"
    by (metis empty_iff empty_set)
  then show ?thesis
    by (simp add: find_bulk_archive_filename_def Let_def split: list.splits)
qed

text \<open>
  A bulk registration that returns has always added a new item: the branch for an
  identical entry under a present key is never taken, because such an entry carries the
  file's own base name and the search for that name has already raised.
\<close>

lemma register_bulk_archive_success:
  assumes "register_bulk_archive w reg p = (Returns (), reg')"
  shows "\<exists>k en. is_file w p \<and> is_bulk_archive_filename w p
           \<and> bulk_generate_registry_entry w p = Returns (k, en, [])
           \<and> k \<notin> set (map fst reg) \<and> reg' = reg @ [(k, en)]"
proof -
  from assms have ex: "is_file w p" and nm: "is_bulk_archive_filename w p"
    and nf: "find_bulk_archive_filename reg p = None"
    by (auto simp add: register_bulk_archive_def split: if_splits)
  from assms ex nm nf obtain k en where gen: "bulk_generate_registry_entry w p = Returns (k, en, [])"
    by (auto simp add: register_bulk_archive_def split: outcome.splits if_splits)
  have "k \<notin> set (map fst reg)"
  proof
    assume present: "k \<in> set (map fst reg)"
    with assms ex nm nf gen have "map_of reg k = Some en"
      by (auto simp add: register_bulk_archive_def is_key_present_def get_entry_def
          split: option.splits if_splits)
    then have "(k, en) \<in> set reg" by (rule map_of_SomeD)
    from find_bulk_archive_filename_finds [OF this bulk_generate_filename [OF gen]] nf
    show False by simp
  qed
  moreover from this assms ex nm nf gen have "reg' = reg @ [(k, en)]"
    by (simp add: register_bulk_archive_def is_key_present_def add_entry_def dict_set_fresh)
  ultimately show ?thesis using ex nm gen by blast
qed

text \<open>
  Claim C1, as amended. A second \<open>register_submission\<close> of a file whose first
  registration wrote its entry under a new key is a silent no-op: it returns, leaves the
  registry as it was (so it adds no conflict diagnostics), and the key has exactly one
  entry. A second \<open>register_bulk_archive\<close> of a file whose first registration returned
  is not a no-op: it raises \<open>ValueError\<close> (the file name is already registered); it too
  leaves the registry unchanged, with exactly one entry for the key.
\<close>

theorem registering_twice:
  "(register_bulk_archive w reg file_path = (Returns (), reg') \<longrightarrow>
      register_bulk_archive w reg' file_path = (Raises ValueError, reg')
      \<and> (\<exists>key en. bulk_generate_registry_entry w file_path = Returns (key, en, [])
            \<and> length (filter (\<lambda>kv. fst kv = key) reg') = 1))
   \<and> (submission_generate_registry_entry w submission_path bulk_key = Returns (skey, sen, errs)
        \<and> \<not> is_key_present sreg skey
        \<and> register_submission w sreg submission_path bulk_key = (Returns (), sreg') \<longrightarrow>
      register_submission w sreg' submission_path bulk_key = (Returns (), sreg')
      \<and> length (filter (\<lambda>kv. fst kv = skey) sreg') = 1)"
proof (rule conjI; rule impI)
  assume first: "register_bulk_archive w reg file_path = (Returns (), reg')"
  from register_bulk_archive_success [OF first]
  obtain k en where ex: "is_file w file_path" and nm: "is_bulk_archive_filename w file_path"
    and gen: "bulk_generate_registry_entry w file_path = Returns (k, en, [])"
    and fresh: "k \<notin> set (map fst reg)" and reg': "reg' = reg @ [(k, en)]"
    by blast
  from reg' have "(k, en) \<in> set reg'" by simp
  from find_bulk_archive_filename_finds [OF this bulk_generate_filename [OF gen]] ex nm
  have again: "register_bulk_archive w reg' file_path = (Raises ValueError, reg')"
    by (simp add: register_bulk_archive_def)
  from count_fresh [OF fresh, of en] reg'
  have "length (filter (\<lambda>kv. fst kv = k) reg') = 1" by simp
  with gen again
  show "register_bulk_archive w reg' file_path = (Raises ValueError, reg')
      \<and> (\<exists>key en. bulk_generate_registry_entry w file_path = Returns (key, en, [])
            \<and> length (filter (\<lambda>kv. fst kv = key) reg') = 1)"
    by blast
next
  assume h: "submission_generate_registry_entry w submission_path bulk_key = Returns (skey, sen, errs)
        \<and> \<not> is_key_present sreg skey
        \<and> register_submission w sreg submission_path bulk_key = (Returns (), sreg')"
  then have gen: "submission_generate_registry_entry w submission_path bulk_key
                    = Returns (skey, sen, errs)"
    and fresh: "skey \<notin> set (map fst sreg)"
    and first: "register_submission w sreg submission_path bulk_key = (Returns (), sreg')"
    by (simp_all add: is_key_present_def)
  from first have ex: "is_file w submission_path" and nm: "is_submission_filename w submission_path"
    by (auto simp add: register_submission_def split: if_splits)
  let ?stored = "if 0 < length errs
                 then Entry (entry_metadata sen) (entry_origin sen)
                        (Some (Diagnostics (Some errs) None))
                 else sen"
  from first ex nm gen fresh have sreg': "sreg' = sreg @ [(skey, ?stored)]"
    by (simp add: register_submission_def is_key_present_def add_entry_def dict_set_fresh Let_def)
  from map_of_fresh [OF fresh] have look: "map_of sreg' skey = Some ?stored"
    by (simp only: sreg')
  have present: "is_key_present sreg' skey"
    by (simp add: sreg' is_key_present_def)
  from count_fresh [OF fresh, of ?stored]
  have one: "length (filter (\<lambda>kv. fst kv = skey) sreg') = 1"
    by (simp only: sreg')
  from ex nm gen look present
  have again: "register_submission w sreg' submission_path bulk_key = (Returns (), sreg')"
    by (simp add: register_submission_def get_entry_def Let_def)
  from again one
  show "register_submission w sreg' submission_path bulk_key = (Returns (), sreg')
      \<and> length (filter (\<lambda>kv. fst kv = skey) sreg') = 1"
    by simp
qed

lemma example_bulk_registration:
  "register_bulk_archive example_world [] (asc ''arXiv_src_9902_005.tar'')
     = (Returns (), bulk_registry_1)"
  by code_simp

lemma example_submission_generation:
  "submission_generate_registry_entry example_world (asc ''hep-th9901001.gz'') (asc ''B'')
     = Returns (asc ''K'', Entry submission_metadata_1 submission_origin_1 None,
                [asc ''File type UNKNOWN not allowed''])"
  by code_simp

lemma example_submission_registration:
  "register_submission example_world [] (asc ''hep-th9901001.gz'') (asc ''B'')
     = (Returns (), submission_registry_1)"
  by code_simp

theorem registering_twice_witness:
  "register_bulk_archive example_world [] (asc ''arXiv_src_9902_005.tar'')
     = (Returns (), bulk_registry_1)
   \<and> register_bulk_archive example_world bulk_registry_1 (asc ''arXiv_src_9902_005.tar'')
     = (Raises ValueError, bulk_registry_1)
   \<and> submission_generate_registry_entry example_world (asc ''hep-th9901001.gz'') (asc ''B'')
     = Returns (asc ''K'', Entry submission_metadata_1 submission_origin_1 None,
                [asc ''File type UNKNOWN not allowed''])
   \<and> \<not> is_key_present [] (asc ''K'')
   \<and> register_submission example_world [] (asc ''hep-th9901001.gz'') (asc ''B'')
     = (Returns (), submission_registry_1)
   \<and> register_submission example_world submission_registry_1 (asc ''hep-th9901001.gz'') (asc ''B'')
     = (Returns (), submission_registry_1)
   \<and> length (filter (\<lambda>kv. fst kv = asc ''K'') submission_registry_1) = 1"
proof -
  have fresh: "\<not> is_key_present [] (asc ''K'')"
    by (simp add: is_key_present_def)
  from registering_twice [of example_world "[]" "asc ''arXiv_src_9902_005.tar''" bulk_registry_1
      "asc ''hep-th9901001.gz''" "asc ''B''" "asc ''K''"
      "Entry submission_metadata_1 submission_origin_1 None"
      "[asc ''File type UNKNOWN not allowed'']" "[]" submission_registry_1]
    example_bulk_registration example_submission_generation example_submission_registration fresh
  show ?thesis by blast
qed

text \<open>
  The claim as stated fails for bulk archives: the first registration of
  \<open>arXiv_src_9902_005.tar\<close> returns, the second one, in the same world, raises.
\<close>

theorem register_bulk_archive_twice_counterexample:
  "register_bulk_archive example_world [] (asc ''arXiv_src_9902_005.tar'')
     = (Returns (), bulk_registry_1)
   \<and> register_bulk_archive example_world bulk_registry_1 (asc ''arXiv_src_9902_005.tar'')
     = (Raises ValueError, bulk_registry_1)"
  by code_simp

subsection \<open>Submissions fail open\<close>

lemma generate_url_returns:
  assumes "is_submission_filename w p"
  shows "\<exists>u. generate_url_for_submission_filename w p = Returns u"
  using assms
  by (auto simp add: is_submission_filename_def generate_url_for_submission_filename_def
      split: option.splits)

lemma check_submission_classifies:
  assumes "is_file w p" "is_submission_filename w p" "check_submission w p = Returns errs"
  shows "\<exists>t. get_file_type_from_format w p True = Returns t"
  using assms
  by (cases "get_file_type_from_format w p True")
     (auto simp add: check_submission_def bind_outcome_def Let_def)

lemma sha256_of_metadata:
  "get_metadata w p [HASH_TYPE_MD5, HASH_TYPE_SHA256] = Returns md \<Longrightarrow>
   dict_get (hash md) (asc ''SHA256'') = Returns (calculate_file_hash w p HASH_TYPE_SHA256)
   \<and> filename md = get_file_basename p"
  by (auto simp add: get_metadata_def bind_outcome_def dict_get_def hash_type_value_def asc_def
      split: if_splits outcome.splits)

lemma submission_generate_with_errors:
  assumes ex: "is_file w p" and nm: "is_submission_filename w p"
    and chk: "check_submission w p = Returns errs" and ne: "errs \<noteq> []"
  shows "\<exists>md u. submission_generate_registry_entry w p bk =
           Returns (calculate_file_hash w p HASH_TYPE_SHA256,
                    Entry md (Submission_origin u bk) None, errs)
         \<and> filename md = get_file_basename p"
proof -
  from generate_url_returns [OF nm]
  obtain u where u: "generate_url_for_submission_filename w p = Returns u" by blast
  from check_submission_classifies [OF ex nm chk]
  obtain t where t: "get_file_type_from_format w p True = Returns t" by blast
  from ex t obtain md where md: "get_metadata w p [HASH_TYPE_MD5, HASH_TYPE_SHA256] = Returns md"
    by (simp add: get_metadata_def bind_outcome_def)
  from sha256_of_metadata [OF md]
  have k: "dict_get (hash md) (asc ''SHA256'') = Returns (calculate_file_hash w p HASH_TYPE_SHA256)"
    and f: "filename md = get_file_basename p" by simp_all
  from ex chk ne u md k f show ?thesis
    by (simp add: submission_generate_registry_entry_def bind_outcome_def Let_def)
qed

text \<open>
  Claim C3, as amended. Let a submission file exist and have a valid submission file name,
  let its validation give a non-empty error list, and let its digest key not yet be in
  the registry. Then \<open>register_submission\<close> does not raise: it returns, and the registry
  afterwards is the old one followed by the file's entry under its digest key, with the
  collected errors as the entry's \<open>diagnostics.error_log\<close>.
\<close>

theorem register_submission_fails_open:
  assumes ex: "is_file w file_path"
    and nm: "is_submission_filename w file_path"
    and chk: "check_submission w file_path = Returns submission_errors"
    and ne: "submission_errors \<noteq> []"
    and fresh: "\<not> is_key_present reg (calculate_file_hash w file_path HASH_TYPE_SHA256)"
  shows "\<exists>md u. register_submission w reg file_path bulk_key =
           (Returns (),
            reg @ [(calculate_file_hash w file_path HASH_TYPE_SHA256,
                    Entry md (Submission_origin u bulk_key)
                      (Some (Diagnostics (Some submission_errors) None)))])
         \<and> filename md = get_file_basename file_path"
proof -
  from submission_generate_with_errors [OF ex nm chk ne, of bulk_key]
  obtain md u where gen: "submission_generate_registry_entry w file_path bulk_key =
           Returns (calculate_file_hash w file_path HASH_TYPE_SHA256,
                    Entry md (Submission_origin u bulk_key) None, submission_errors)"
    and f: "filename md = get_file_basename file_path" by blast
  from fresh have "calculate_file_hash w file_path HASH_TYPE_SHA256 \<notin> set (map fst reg)"
    by (simp add: is_key_present_def)
  with ex nm gen ne fresh f show ?thesis
    by (simp add: register_submission_def add_entry_def dict_set_fresh Let_def)
qed

theorem register_submission_fails_open_witness:
  "is_file example_world (asc ''1202.3054.gz'')
   \<and> is_submission_filename example_world (asc ''1202.3054.gz'')
   \<and> check_submission example_world (asc ''1202.3054.gz'')
       = Returns [asc ''File type UNKNOWN not allowed'']
   \<and> \<not> is_key_present [] (calculate_file_hash example_world (asc ''1202.3054.gz'') HASH_TYPE_SHA256)
   \<and> (\<exists>md u. register_submission example_world [] (asc ''1202.3054.gz'') (asc ''B'') =
           (Returns (),
            [] @ [(calculate_file_hash example_world (asc ''1202.3054.gz'') HASH_TYPE_SHA256,
                   Entry md (Submission_origin u (asc ''B''))
                     (Some (Diagnostics (Some [asc ''File type UNKNOWN not allowed'']) None)))])
         \<and> filename md = get_file_basename (asc ''1202.3054.gz''))"
proof -
  have h1: "is_file example_world (asc ''1202.3054.gz'')" by code_simp
  have h2: "is_submission_filename example_world (asc ''1202.3054.gz'')" by code_simp
  have h3: "check_submission example_world (asc ''1202.3054.gz'')
              = Returns [asc ''File type UNKNOWN not allowed'']"
    by code_simp
  have h4: "[asc ''File type UNKNOWN not allowed''] \<noteq> []" by simp
  have h5: "\<not> is_key_present []
               (calculate_file_hash example_world (asc ''1202.3054.gz'') HASH_TYPE_SHA256)"
    by (simp add: is_key_present_def)
  from register_submission_fails_open [OF h1 h2 h3 h4 h5, of "asc ''B''"] h1 h2 h3 h5
  show ?thesis by blast
qed

text \<open>
  The claim as stated fails when the digest key is already registered for another file:
  \<open>1202.3054.gz\<close> exists, has a valid name and a non-empty error list, and its key
  \<open>K\<close> holds the entry of \<open>hep-th9901001.gz\<close>. The call returns, but the entry under
  \<open>K\<close> is still the one of \<open>hep-th9901001.gz\<close>; the new entry is only recorded among
  its key conflicts.
\<close>

theorem register_submission_counterexample:
  "is_file example_world (asc ''1202.3054.gz'')
   \<and> is_submission_filename example_world (asc ''1202.3054.gz'')
   \<and> check_submission example_world (asc ''1202.3054.gz'')
       = Returns [asc ''File type UNKNOWN not allowed'']
   \<and> calculate_file_hash example_world (asc ''1202.3054.gz'') HASH_TYPE_SHA256 = asc ''K''
   \<and> register_submission example_world submission_registry_1 (asc ''1202.3054.gz'') (asc ''B'')
       = (Returns (), submission_registry_2)
   \<and> map_of submission_registry_2 (asc ''K'') = Some (conflicted_entry_1 [submission_entry_2])
   \<and> filename (entry_metadata (conflicted_entry_1 [submission_entry_2])) = asc ''hep-th9901001.gz''"
  by code_simp

subsection \<open>Key conflicts of submissions\<close>

lemma register_submission_conflict_step:
  assumes held: "map_of reg key = Some (Entry md0 orig0 diag0)"
    and log0: "log0 = (case diag0 of None \<Rightarrow> []
                       | Some d \<Rightarrow> (case error_log d of None \<Rightarrow> [] | Some l \<Rightarrow> l))"
    and kc0: "if asc ''key conflicts'' \<in> set log0
              then \<exists>d. diag0 = Some d \<and> key_conflicts d = Some kc0
              else kc0 = []"
    and ex: "is_file w p" and nm: "is_submission_filename w p"
    and gen: "submission_generate_registry_entry w p bk = Returns (key, e, errs)"
    and diff: "entry_metadata e \<noteq> md0"
    and rej: "rej = (if errs \<noteq> []
                     then Entry (entry_metadata e) (entry_origin e)
                            (Some (Diagnostics (Some errs) None))
                     else e)"
  shows "register_submission w reg p bk =
     (Returns (),
      dict_set reg key
        (Entry md0 orig0
           (Some (Diagnostics
              (Some (if asc ''key conflicts'' \<in> set log0 then log0
                     else log0 @ [asc ''key conflicts'']))
              (Some (kc0 @ [rej]))))))"
proof -
  from held have present: "is_key_present reg key"
    by (auto simp add: is_key_present_def dest: map_of_SomeD intro: rev_image_eqI)
  from held have got: "get_entry reg key = Returns (Entry md0 orig0 diag0)"
    by (simp add: get_entry_def)
  have md: "entry_metadata rej = entry_metadata e"
    by (simp add: rej)
  show ?thesis
  proof (cases "asc ''key conflicts'' \<in> set log0")
    case True
    with kc0 obtain d where d: "diag0 = Some d" "key_conflicts d = Some kc0" by auto
    from True log0 d obtain l where l: "error_log d = Some l" "log0 = l"
      by (cases "error_log d") simp_all
    from ex nm gen present got diff md True d l show ?thesis
      by (simp add: register_submission_def Let_def rej)
  next
    case False
    with kc0 have k: "kc0 = []" by simp
    show ?thesis
    proof (cases diag0)
      case None
      with log0 have "log0 = []" by simp
      with ex nm gen present got diff md None k show ?thesis
        by (simp add: register_submission_def Let_def rej)
    next
      case (Some d)
      show ?thesis
      proof (cases "error_log d")
        case None
        with log0 Some have "log0 = []" by simp
        with ex nm gen present got diff md None Some k show ?thesis
          by (simp add: register_submission_def Let_def rej)
      next
        case (Some l)
        with log0 \<open>diag0 = Some d\<close> have "log0 = l" by simp
        with ex nm gen present got diff md Some \<open>diag0 = Some d\<close> k False show ?thesis
          by (simp add: register_submission_def Let_def rej)
      qed
    qed
  qed
qed

lemma register_submissions_append_conflicts:
  assumes held: "map_of reg key = Some (Entry md0 orig0 diag0)"
    and log0: "log0 = (case diag0 of None \<Rightarrow> []
                       | Some d \<Rightarrow> (case error_log d of None \<Rightarrow> [] | Some l \<Rightarrow> l))"
    and kc0: "if asc ''key conflicts'' \<in> set log0
              then \<exists>d. diag0 = Some d \<and> key_conflicts d = Some kc0
              else kc0 = []"
    and calls: "list_all2
        (\<lambda>call rej. is_file w (fst call) \<and> is_submission_filename w (fst call)
           \<and> (\<exists>e errs. submission_generate_registry_entry w (fst call) (snd call)
                          = Returns (key, e, errs)
                 \<and> entry_metadata e \<noteq> md0
                 \<and> rej = (if errs \<noteq> []
                          then Entry (entry_metadata e) (entry_origin e)
                                 (Some (Diagnostics (Some errs) None))
                          else e)))
        calls rejected"
  shows "register_submissions w reg calls =
     (Returns (),
      if calls = [] then reg
      else dict_set reg key
        (Entry md0 orig0
           (Some (Diagnostics
              (Some (if asc ''key conflicts'' \<in> set log0 then log0
                     else log0 @ [asc ''key conflicts'']))
              (Some (kc0 @ rejected))))))"
  using calls held log0 kc0
proof (induction calls rejected arbitrary: reg diag0 log0 kc0 rule: list_all2_induct)
  case Nil
  then show ?case by simp
next
  case (Cons call calls rej rejected)
  obtain p bk where call: "call = (p, bk)" by (cases call)
  from Cons.hyps(1) call obtain e errs where ex: "is_file w p" and nm: "is_submission_filename w p"
    and gen: "submission_generate_registry_entry w p bk = Returns (key, e, errs)"
    and diff: "entry_metadata e \<noteq> md0"
    and rej: "rej = (if errs \<noteq> []
                     then Entry (entry_metadata e) (entry_origin e)
                            (Some (Diagnostics (Some errs) None))
                     else e)"
    by auto
  let ?log1 = "if asc ''key conflicts'' \<in> set log0 then log0 else log0 @ [asc ''key conflicts'']"
  let ?diag1 = "Some (Diagnostics (Some ?log1) (Some (kc0 @ [rej])))"
  let ?reg1 = "dict_set reg key (Entry md0 orig0 ?diag1)"
  from register_submission_conflict_step
    [OF Cons.prems(1) Cons.prems(2) Cons.prems(3) ex nm gen diff rej]
  have step: "register_submission w reg p bk = (Returns (), ?reg1)" .
  have held1: "map_of ?reg1 key = Some (Entry md0 orig0 ?diag1)"
    by (rule map_of_dict_set)
  have log1: "?log1 = (case ?diag1 of None \<Rightarrow> []
                       | Some d \<Rightarrow> (case error_log d of None \<Rightarrow> [] | Some l \<Rightarrow> l))"
    by simp
  have marked: "asc ''key conflicts'' \<in> set ?log1" by simp
  then have kc1: "if asc ''key conflicts'' \<in> set ?log1
              then \<exists>d. ?diag1 = Some d \<and> key_conflicts d = Some (kc0 @ [rej])
              else kc0 @ [rej] = []"
    by simp
  from Cons.IH [OF held1 log1 kc1] marked
  have rest: "register_submissions w ?reg1 calls =
     (Returns (),
      if calls = [] then ?reg1
      else dict_set ?reg1 key
        (Entry md0 orig0 (Some (Diagnostics (Some ?log1) (Some ((kc0 @ [rej]) @ rejected))))))"
    by simp
  from Cons.hyps(2) have "calls = [] \<Longrightarrow> rejected = []" by simp
  with step rest call show ?case
    by (simp add: dict_set_twice)
qed

text \<open>
  Claim C4, as amended. Let the key hold an entry with metadata \<open>md0\<close>, error log
  \<open>log0\<close> (empty when there is none) and, when that log already holds the marker
  \<open>key conflicts\<close>, the list \<open>kc0\<close> of earlier conflicts (\<open>kc0\<close> is empty otherwise).
  Let \<open>calls\<close> be one or more registrations in a row, each of an existing file with a
  valid name whose computed key is this key and whose metadata differ from \<open>md0\<close>, and
  let \<open>rejected\<close> be the entries these calls offer, in call order. Then all calls
  return, and afterwards:
  \<^item> the key holds the same metadata and origin as before (the entry is not replaced);
  \<^item> its error log is \<open>log0\<close> with the marker added at the end if it was not there; the
    marker is never added twice, so it occurs once when \<open>log0\<close> had it at most once;
  \<^item> its \<open>key_conflicts\<close> is \<open>kc0\<close> followed by \<open>rejected\<close>: exactly the rejected entries
    in call order when the entry had no conflict marker before, and the earlier conflicts
    followed by them otherwise;
  \<^item> the registry has the same keys in the same order, and every other key holds what it
    held.
\<close>

theorem register_submissions_record_conflicts:
  assumes held: "map_of reg key = Some (Entry md0 orig0 diag0)"
    and log0: "log0 = (case diag0 of None \<Rightarrow> []
                       | Some d \<Rightarrow> (case error_log d of None \<Rightarrow> [] | Some l \<Rightarrow> l))"
    and kc0: "if asc ''key conflicts'' \<in> set log0
              then \<exists>d. diag0 = Some d \<and> key_conflicts d = Some kc0
              else kc0 = []"
    and calls: "list_all2
        (\<lambda>call rej. is_file w (fst call) \<and> is_submission_filename w (fst call)
           \<and> (\<exists>e errs. submission_generate_registry_entry w (fst call) (snd call)
                          = Returns (key, e, errs)
                 \<and> entry_metadata e \<noteq> md0
                 \<and> rej = (if errs \<noteq> []
                          then Entry (entry_metadata e) (entry_origin e)
                                 (Some (Diagnostics (Some errs) None))
                          else e)))
        calls rejected"
    and some: "calls \<noteq> []"
  shows "\<exists>reg' log'. register_submissions w reg calls = (Returns (), reg')
     \<and> map_of reg' key =
         Some (Entry md0 orig0 (Some (Diagnostics (Some log') (Some (kc0 @ rejected)))))
     \<and> log' = (if asc ''key conflicts'' \<in> set log0 then log0
                else log0 @ [asc ''key conflicts''])
     \<and> count_list log' (asc ''key conflicts'') = max 1 (count_list log0 (asc ''key conflicts''))
     \<and> map fst reg' = map fst reg
     \<and> (\<forall>k. k \<noteq> key \<longrightarrow> map_of reg' k = map_of reg k)"
proof -
  let ?log' = "if asc ''key conflicts'' \<in> set log0 then log0 else log0 @ [asc ''key conflicts'']"
  let ?entry = "Entry md0 orig0 (Some (Diagnostics (Some ?log') (Some (kc0 @ rejected))))"
  from register_submissions_append_conflicts [OF held log0 kc0 calls] some
  have run: "register_submissions w reg calls = (Returns (), dict_set reg key ?entry)"
    by simp
  from held have "key \<in> set (map fst reg)"
    by (auto dest: map_of_SomeD intro: rev_image_eqI)
  then have keys: "map fst (dict_set reg key ?entry) = map fst reg"
    by (rule keys_dict_set_present)
  have count: "count_list ?log' (asc ''key conflicts'')
                 = max 1 (count_list log0 (asc ''key conflicts''))"
  proof (cases "asc ''key conflicts'' \<in> set log0")
    case True
    then have "count_list log0 (asc ''key conflicts'') \<noteq> 0"
      by (simp add: count_list_0_iff)
    with True show ?thesis by simp
  next
    case False
    then have "count_list log0 (asc ''key conflicts'') = 0"
      by (simp add: count_list_0_iff)
    with False show ?thesis by simp
  qed
  from run keys count show ?thesis
    by (simp add: map_of_dict_set map_of_dict_set_other)
qed

theorem register_submissions_record_conflicts_witness:
  "map_of submission_registry_1 (asc ''K'')
     = Some (Entry submission_metadata_1 submission_origin_1
               (Some (Diagnostics (Some [asc ''File type UNKNOWN not allowed'']) None)))
   \<and> asc ''key conflicts'' \<notin> set [asc ''File type UNKNOWN not allowed'']
   \<and> submission_generate_registry_entry example_world (asc ''1202.3054.gz'') (asc ''B'')
       = Returns (asc ''K'', Entry submission_metadata_2 submission_origin_2 None,
                  [asc ''File type UNKNOWN not allowed''])
   \<and> submission_metadata_2 \<noteq> submission_metadata_1
   \<and> register_submissions example_world submission_registry_1
        [(asc ''1202.3054.gz'', asc ''B''), (asc ''1202.3054.gz'', asc ''B'')]
       = (Returns (), submission_registry_3)
   \<and> map_of submission_registry_3 (asc ''K'')
       = Some (Entry submission_metadata_1 submission_origin_1
                 (Some (Diagnostics
                    (Some [asc ''File type UNKNOWN not allowed'', asc ''key conflicts''])
                    (Some [submission_entry_2, submission_entry_2]))))"
proof -
  let ?err = "asc ''File type UNKNOWN not allowed''"
  let ?calls = "[(asc ''1202.3054.gz'', asc ''B''), (asc ''1202.3054.gz'', asc ''B'')]"
  have held: "map_of submission_registry_1 (asc ''K'')
     = Some (Entry submission_metadata_1 submission_origin_1
               (Some (Diagnostics (Some [?err]) None)))"
    by (simp add: submission_registry_1_def submission_entry_1_def)
  have log0: "[?err] = (case Some (Diagnostics (Some [?err]) None) of None \<Rightarrow> []
                       | Some d \<Rightarrow> (case error_log d of None \<Rightarrow> [] | Some l \<Rightarrow> l))"
    by simp
  have unmarked: "asc ''key conflicts'' \<notin> set [?err]"
    by (simp add: asc_def)
  then have kc0: "if asc ''key conflicts'' \<in> set [?err]
              then \<exists>d. Some (Diagnostics (Some [?err]) None) = Some d
                     \<and> key_conflicts d = Some []
              else [] = ([] :: entry list)"
    by simp
  have ex: "is_file example_world (asc ''1202.3054.gz'')" by code_simp
  have nm: "is_submission_filename example_world (asc ''1202.3054.gz'')" by code_simp
  have gen: "submission_generate_registry_entry example_world (asc ''1202.3054.gz'') (asc ''B'')
       = Returns (asc ''K'', Entry submission_metadata_2 submission_origin_2 None, [?err])"
    by code_simp
  have diff: "submission_metadata_2 \<noteq> submission_metadata_1"
    by (simp add: submission_metadata_1_def submission_metadata_2_def asc_def)
  have one: "is_file example_world (asc ''1202.3054.gz'')
       \<and> is_submission_filename example_world (asc ''1202.3054.gz'')
       \<and> (\<exists>e errs. submission_generate_registry_entry example_world (asc ''1202.3054.gz'') (asc ''B'')
                      = Returns (asc ''K'', e, errs)
             \<and> entry_metadata e \<noteq> submission_metadata_1
             \<and> submission_entry_2 = (if errs \<noteq> []
                      then Entry (entry_metadata e) (entry_origin e)
                             (Some (Diagnostics (Some errs) None))
                      else e))"
    using ex nm gen diff by (simp add: submission_entry_2_def)
  have calls: "list_all2
        (\<lambda>call rej. is_file example_world (fst call) \<and> is_submission_filename example_world (fst call)
           \<and> (\<exists>e errs. submission_generate_registry_entry example_world (fst call) (snd call)
                          = Returns (asc ''K'', e, errs)
                 \<and> entry_metadata e \<noteq> submission_metadata_1
                 \<and> rej = (if errs \<noteq> []
                          then Entry (entry_metadata e) (entry_origin e)
                                 (Some (Diagnostics (Some errs) None))
                          else e)))
        ?calls [submission_entry_2, submission_entry_2]"
    using one by simp
  have some: "?calls \<noteq> []" by simp
  have run: "register_submissions example_world submission_registry_1 ?calls
       = (Returns (), submission_registry_3)"
    by code_simp
  from register_submissions_record_conflicts [OF held log0 kc0 calls some] run unmarked
  have "map_of submission_registry_3 (asc ''K'')
       = Some (Entry submission_metadata_1 submission_origin_1
                 (Some (Diagnostics (Some [?err, asc ''key conflicts''])
                    (Some [submission_entry_2, submission_entry_2]))))"
    by auto
  with held unmarked gen diff run show ?thesis by simp
qed

text \<open>
  The claim as stated fails in a state whose entry already carries a conflict: in
  \<open>submission_registry_2\<close> the key \<open>K\<close> holds one earlier conflict, and after one more
  colliding call its \<open>key_conflicts\<close> has two entries, not the one rejected entry of
  that call.
\<close>

theorem register_submissions_counterexample:
  "map_of submission_registry_2 (asc ''K'') = Some (conflicted_entry_1 [submission_entry_2])
   \<and> register_submissions example_world submission_registry_2 [(asc ''1202.3054.gz'', asc ''B'')]
       = (Returns (), submission_registry_3)
   \<and> map_of submission_registry_3 (asc ''K'')
       = Some (conflicted_entry_1 [submission_entry_2, submission_entry_2])
   \<and> [submission_entry_2, submission_entry_2] \<noteq> [submission_entry_2]"
  by code_simp

end
